theory Spec2Isabelle
  imports Complex_Main "HOL-Library.Multiset"
begin

section \<open>The multitask model\<close>

text \<open>
  Failures of the Python code are values: \<open>Inl e\<close> is the exception \<open>e\<close> reaching
  the caller, \<open>Inr v\<close> is the returned value.
\<close>

datatype py_error =
  AssertionError | ZeroDivisionError | OverflowError | RuntimeError | IndexError | ValueError

text \<open>
  A parameter tensor carries its values and the flag \<^verbatim>\<open>requires_grad\<close>. A batch
  of token ids or of attention masks is a list of rows; a two-dimensional float
  tensor is a list of rows of reals, a one-dimensional one a list of reals.
\<close>

record 'a param =
  data :: 'a
  requires_grad :: bool

datatype tensor = T1 "real list" | T2 "real list list"

text \<open>
  \<^verbatim>\<open>torch.nn.Linear(in_features, out_features)\<close>: a weight of shape
  \<open>out_features \<times> in_features\<close> and a bias of length \<open>out_features\<close>, both created
  with \<^verbatim>\<open>requires_grad = True\<close>. The initial entries are drawn at random by torch;
  here they are given by \<open>w\<close> and \<open>b\<close>. Applied to a batch whose rows do not have
  \<open>in_features\<close> entries, torch raises a RuntimeError.
\<close>

record linear =
  in_features :: nat
  out_features :: nat
  weight :: "(real list list) param"
  bias :: "(real list) param"

definition Linear :: "(nat \<Rightarrow> nat \<Rightarrow> real) \<Rightarrow> (nat \<Rightarrow> real) \<Rightarrow> nat \<Rightarrow> nat \<Rightarrow> linear" where
  "Linear w b n_in n_out =
     \<lparr>in_features = n_in, out_features = n_out,
      weight = \<lparr>data = map (\<lambda>i. map (w i) [0..<n_in]) [0..<n_out], requires_grad = True\<rparr>,
      bias = \<lparr>data = map b [0..<n_out], requires_grad = True\<rparr>\<rparr>"

definition dot :: "real list \<Rightarrow> real list \<Rightarrow> real" where
  "dot x w = sum_list (map2 (*) x w)"

definition linear_apply :: "linear \<Rightarrow> real list list \<Rightarrow> py_error + real list list" where
  "linear_apply l x =
     (if list_all (\<lambda>row. length row = in_features l) x
      then Inr (map (\<lambda>row. map2 (\<lambda>w b. dot row w + b) (data (weight l)) (data (bias l))) x)
      else Inl RuntimeError)"

text \<open>
  \<^verbatim>\<open>torch.nn.Dropout\<close> multiplies the entry at row \<open>i\<close>, column \<open>j\<close> by a factor
  that the random generator decides in training mode (0, or \<open>1 / (1 - p)\<close>) and that
  is 1 in evaluation mode. The factors are the argument \<open>noise\<close>.
\<close>

definition dropout :: "(nat \<Rightarrow> nat \<Rightarrow> real) \<Rightarrow> real list list \<Rightarrow> real list list" where
  "dropout noise x =
     map (\<lambda>(i, row). map (\<lambda>(j, v). noise i j * v) (zip [0..<length row] row)) (zip [0..<length x] x)"

text \<open>\<^verbatim>\<open>torch.cat([a, b], dim=1)\<close> needs the same number of rows on both sides.\<close>

definition cat_dim1 :: "real list list \<Rightarrow> real list list \<Rightarrow> py_error + real list list" where
  "cat_dim1 a b = (if length a = length b then Inr (map2 (@) a b) else Inl RuntimeError)"

text \<open>\<^verbatim>\<open>.squeeze(-1)\<close> drops the last dimension when its size is 1 and is the
  identity otherwise.\<close>

definition squeeze_last :: "real list list \<Rightarrow> tensor" where
  "squeeze_last x = (if list_all (\<lambda>row. length row = 1) x then T1 (map hd x) else T2 x)"

text \<open>
  The encoder \<^verbatim>\<open>BertModel\<close> is not part of this file's source. It is a list of
  parameters and a function \<open>bert_call\<close> from the parameters' values, the state of
  the random generator at the call (the number of the call within one prediction),
  the token ids and the attention mask to the \<^verbatim>\<open>pooler_output\<close>, or to an error.
\<close>

record bert_model =
  bert_parameters :: "(real list) param list"
  bert_call :: "real list list \<Rightarrow> nat \<Rightarrow> nat list list \<Rightarrow> nat list list \<Rightarrow> py_error + real list list"

record config =
  hidden_dropout_prob :: real
  num_labels :: nat
  hidden_size :: nat
  fine_tune_mode :: string
  siamese :: bool

record multitask_bert =
  bert :: bert_model
  self_num_labels :: nat
  sst_dense :: linear
  para_dense :: linear
  para_dense_siamese :: linear
  sts_dense :: linear
  sts_dense_siamese :: linear
  self_siamese :: bool

text \<open>
  \<^verbatim>\<open>
    self.bert = BertModel.from_pretrained('bert-base-uncased')
    assert config.fine_tune_mode in ["last-linear-layer", "full-model"]
    for param in self.bert.parameters():
        if config.fine_tune_mode == 'last-linear-layer':
            param.requires_grad = False
        elif config.fine_tune_mode == 'full-model':
            param.requires_grad = True
  \<close>
  \<open>pretrained\<close> is what \<^verbatim>\<open>from_pretrained\<close> loads; \<open>w\<close> and \<open>b\<close> give the initial
  entries of the five heads, in the order of their construction.
\<close>

definition set_requires_grad :: "string \<Rightarrow> 'a param \<Rightarrow> 'a param" where
  "set_requires_grad mode p =
     (if mode = ''last-linear-layer'' then p\<lparr>requires_grad := False\<rparr>
      else if mode = ''full-model'' then p\<lparr>requires_grad := True\<rparr>
      else p)"

definition init_model ::
  "bert_model \<Rightarrow> (nat \<Rightarrow> nat \<Rightarrow> nat \<Rightarrow> real) \<Rightarrow> (nat \<Rightarrow> nat \<Rightarrow> real) \<Rightarrow> config \<Rightarrow> py_error + multitask_bert" where
  "init_model pretrained w b cfg =
     (if fine_tune_mode cfg \<notin> set [''last-linear-layer'', ''full-model''] then Inl AssertionError
      else Inr
        \<lparr>bert = pretrained\<lparr>bert_parameters :=
                  map (set_requires_grad (fine_tune_mode cfg)) (bert_parameters pretrained)\<rparr>,
         self_num_labels = num_labels cfg,
         sst_dense = Linear (w 0) (b 0) (hidden_size cfg) (num_labels cfg),
         para_dense = Linear (w 1) (b 1) (hidden_size cfg) 1,
         para_dense_siamese = Linear (w 2) (b 2) (hidden_size cfg * 2) 1,
         sts_dense = Linear (w 3) (b 3) (hidden_size cfg) 1,
         sts_dense_siamese = Linear (w 4) (b 4) (hidden_size cfg * 2) 1,
         self_siamese = siamese cfg\<rparr>)"

definition forward :: "multitask_bert \<Rightarrow> nat \<Rightarrow> nat list list \<Rightarrow> nat list list \<Rightarrow> py_error + real list list" where
  "forward m call input_ids attention_mask =
     bert_call (bert m) (map data (bert_parameters (bert m))) call input_ids attention_mask"

definition predict_sentiment ::
  "multitask_bert \<Rightarrow> (nat \<Rightarrow> nat \<Rightarrow> real) \<Rightarrow> nat list list \<Rightarrow> nat list list \<Rightarrow> py_error + tensor" where
  "predict_sentiment m noise input_ids attention_mask =
     (case forward m 0 input_ids attention_mask of
        Inl e \<Rightarrow> Inl e
      | Inr pooler_output \<Rightarrow>
          (case linear_apply (sst_dense m) (dropout noise pooler_output) of
             Inl e \<Rightarrow> Inl e
           | Inr logits \<Rightarrow> Inr (T2 logits)))"

text \<open>
  The two paired heads have the same body up to the layers they use; \<open>pair_head\<close> is
  that body, with the single-encoding layer and the dual-encoding layer as arguments.
  When \<^verbatim>\<open>self.siamese\<close> is false only the first sequence is passed to the encoder.
\<close>

definition pair_head ::
  "linear \<Rightarrow> linear \<Rightarrow> multitask_bert \<Rightarrow> (nat \<Rightarrow> nat \<Rightarrow> real) \<Rightarrow>
   nat list list \<Rightarrow> nat list list \<Rightarrow> nat list list \<Rightarrow> nat list list \<Rightarrow> py_error + tensor" where
  "pair_head dense dense_siamese m noise input_ids_1 attention_mask_1 input_ids_2 attention_mask_2 =
     (if \<not> self_siamese m then
        (case forward m 0 input_ids_1 attention_mask_1 of
           Inl e \<Rightarrow> Inl e
         | Inr pooler_output \<Rightarrow>
             (case linear_apply dense (dropout noise pooler_output) of
                Inl e \<Rightarrow> Inl e
              | Inr y \<Rightarrow> Inr (squeeze_last y)))
      else
        (case forward m 0 input_ids_1 attention_mask_1 of
           Inl e \<Rightarrow> Inl e
         | Inr pooler_output_1 \<Rightarrow>
             (case forward m 1 input_ids_2 attention_mask_2 of
                Inl e \<Rightarrow> Inl e
              | Inr pooler_output_2 \<Rightarrow>
                  (case cat_dim1 pooler_output_1 pooler_output_2 of
                     Inl e \<Rightarrow> Inl e
                   | Inr concat_out \<Rightarrow>
                       (case linear_apply dense_siamese (dropout noise concat_out) of
                          Inl e \<Rightarrow> Inl e
                        | Inr y \<Rightarrow> Inr (squeeze_last y))))))"

definition predict_paraphrase ::
  "multitask_bert \<Rightarrow> (nat \<Rightarrow> nat \<Rightarrow> real) \<Rightarrow>
   nat list list \<Rightarrow> nat list list \<Rightarrow> nat list list \<Rightarrow> nat list list \<Rightarrow> py_error + tensor" where
  "predict_paraphrase m = pair_head (para_dense m) (para_dense_siamese m) m"

definition predict_similarity ::
  "multitask_bert \<Rightarrow> (nat \<Rightarrow> nat \<Rightarrow> real) \<Rightarrow>
   nat list list \<Rightarrow> nat list list \<Rightarrow> nat list list \<Rightarrow> nat list list \<Rightarrow> py_error + tensor" where
  "predict_similarity m = pair_head (sts_dense m) (sts_dense_siamese m) m"

text \<open>
  What the prediction functions expect of the encoder: for a batch of token ids and a
  mask with as many rows, it returns one pooled vector of width \<open>h\<close> per row.
\<close>

definition encoder_contract :: "bert_model \<Rightarrow> nat \<Rightarrow> bool" where
  "encoder_contract enc h = (\<forall>ps call ids msk. length msk = length ids \<longrightarrow>
     (\<exists>p. bert_call enc ps call ids msk = Inr p \<and> length p = length ids \<and>
          list_all (\<lambda>row. length row = h) p))"

text \<open>
  Modelled from the spec: the backward pass and the optimizer (\<^verbatim>\<open>optimizer.py\<close>,
  \<^verbatim>\<open>AdamW\<close>) are not among the source files. The spec says that parameters
  excluded from gradient updates are not changed by a training step. One step
  (\<^verbatim>\<open>optimizer.zero_grad(); loss.backward(); optimizer.step()\<close>) replaces the value
  \<open>v\<close> of a parameter with \<^verbatim>\<open>requires_grad\<close> by \<open>upd v\<close>, where \<open>upd\<close> stands for
  whatever the gradient and the update rule make of it, and leaves every other
  parameter as it is. \<open>ub i\<close> is the update of the \<open>i\<close>-th encoder parameter,
  \<open>uw k\<close> and \<open>uv k\<close> those of the weight and the bias of the \<open>k\<close>-th head.
\<close>

definition step_param :: "('a \<Rightarrow> 'a) \<Rightarrow> 'a param \<Rightarrow> 'a param" where
  "step_param upd p = (if requires_grad p then p\<lparr>data := upd (data p)\<rparr> else p)"

definition step_linear :: "(real list list \<Rightarrow> real list list) \<Rightarrow> (real list \<Rightarrow> real list) \<Rightarrow> linear \<Rightarrow> linear" where
  "step_linear updw updb l = l\<lparr>weight := step_param updw (weight l), bias := step_param updb (bias l)\<rparr>"

definition train_step ::
  "(nat \<Rightarrow> real list \<Rightarrow> real list) \<Rightarrow> (nat \<Rightarrow> real list list \<Rightarrow> real list list) \<Rightarrow>
   (nat \<Rightarrow> real list \<Rightarrow> real list) \<Rightarrow> multitask_bert \<Rightarrow> multitask_bert" where
  "train_step ub uw uv m =
     m\<lparr>bert := (bert m)\<lparr>bert_parameters :=
          map (\<lambda>(i, p). step_param (ub i) p)
            (zip [0..<length (bert_parameters (bert m))] (bert_parameters (bert m)))\<rparr>,
       sst_dense := step_linear (uw 0) (uv 0) (sst_dense m),
       para_dense := step_linear (uw 1) (uv 1) (para_dense m),
       para_dense_siamese := step_linear (uw 2) (uv 2) (para_dense_siamese m),
       sts_dense := step_linear (uw 3) (uv 3) (sts_dense m),
       sts_dense_siamese := step_linear (uw 4) (uv 4) (sts_dense_siamese m)\<rparr>"

text \<open>A small instance, used to run the definitions: an encoder with two parameters
  and pooled vectors of width 2, and a configuration with five classes.\<close>

definition example_bert :: bert_model where
  "example_bert =
     \<lparr>bert_parameters = [\<lparr>data = [1, 2], requires_grad = True\<rparr>, \<lparr>data = [3], requires_grad = True\<rparr>],
      bert_call = (\<lambda>ps call ids msk. Inr (map (\<lambda>row. [of_nat (sum_list row), of_nat (length row)]) ids))\<rparr>"

definition example_config :: config where
  "example_config =
     \<lparr>hidden_dropout_prob = 3 / 10, num_labels = 5, hidden_size = 2,
      fine_tune_mode = ''last-linear-layer'', siamese = False\<rparr>"

definition example_model :: multitask_bert where
  "example_model =
     \<lparr>bert = example_bert\<lparr>bert_parameters :=
         [\<lparr>data = [1, 2], requires_grad = False\<rparr>, \<lparr>data = [3], requires_grad = False\<rparr>]\<rparr>,
      self_num_labels = 5,
      sst_dense = Linear (\<lambda>i j. 1 / 2) (\<lambda>i. 0) 2 5,
      para_dense = Linear (\<lambda>i j. 1 / 2) (\<lambda>i. 0) 2 1,
      para_dense_siamese = Linear (\<lambda>i j. 1 / 2) (\<lambda>i. 0) 4 1,
      sts_dense = Linear (\<lambda>i j. 1 / 2) (\<lambda>i. 0) 2 1,
      sts_dense_siamese = Linear (\<lambda>i j. 1 / 2) (\<lambda>i. 0) 4 1,
      self_siamese = False\<rparr>"

section \<open>The sentiment loss\<close>

text \<open>
  \<^verbatim>\<open>
    logits = model.predict_sentiment(b_ids, b_mask)
    loss = F.cross_entropy(logits, b_labels.view(-1), reduction='sum') / args.batch_size
  \<close>
  \<^verbatim>\<open>F.cross_entropy\<close> is torch's: the loss of one example with logits \<open>row\<close> and
  class \<open>y\<close> is \<open>ln (\<Sum>j. exp (row j)) - row y\<close>; a label equal to
  \<^verbatim>\<open>ignore_index = -100\<close> contributes nothing; any other label outside the classes
  raises an IndexError; logits and labels of different batch sizes raise a
  ValueError. The reduction \<^verbatim>\<open>'sum'\<close> adds the losses, \<^verbatim>\<open>'mean'\<close> divides their
  sum by the number of labels that are not ignored. The arithmetic is that of the
  reals. The mean over no counted label is \<^verbatim>\<open>nan\<close> in torch; the quotient by 0 of
  HOL stands in its place and no statement below reads it.
\<close>

datatype reduction = ReduceMean | ReduceSum

definition nll :: "real list \<Rightarrow> nat \<Rightarrow> real" where
  "nll row y = ln (sum_list (map exp row)) - row ! y"

definition example_loss :: "real list \<Rightarrow> int \<Rightarrow> py_error + real" where
  "example_loss row y =
     (if y = - 100 then Inr 0
      else if 0 \<le> y \<and> y < int (length row) then Inr (nll row (nat y))
      else Inl IndexError)"

fun example_losses :: "real list list \<Rightarrow> int list \<Rightarrow> py_error + real list" where
  "example_losses (row # rows) (y # ys) =
     (case example_loss row y of
        Inl e \<Rightarrow> Inl e
      | Inr l \<Rightarrow> (case example_losses rows ys of Inl e \<Rightarrow> Inl e | Inr ls \<Rightarrow> Inr (l # ls)))"
| "example_losses rows ys = Inr []"

definition cross_entropy :: "real list list \<Rightarrow> int list \<Rightarrow> reduction \<Rightarrow> py_error + real" where
  "cross_entropy input target red =
     (if length input \<noteq> length target then Inl ValueError
      else case example_losses input target of
        Inl e \<Rightarrow> Inl e
      | Inr ls \<Rightarrow>
          (case red of
             ReduceSum \<Rightarrow> Inr (sum_list ls)
           | ReduceMean \<Rightarrow> Inr (sum_list ls / real (length (filter (\<lambda>y. y \<noteq> - 100) target)))))"

text \<open>\<open>batch_size\<close> is \<^verbatim>\<open>args.batch_size\<close>, the configured size; the batch at hand is
  \<open>logits\<close> and \<open>b_labels\<close>, of whatever size the loader delivered.\<close>

definition sst_loss :: "nat \<Rightarrow> real list list \<Rightarrow> int list \<Rightarrow> py_error + real" where
  "sst_loss batch_size logits b_labels =
     (case cross_entropy logits b_labels ReduceSum of
        Inl e \<Rightarrow> Inl e
      | Inr s \<Rightarrow> Inr (s / real batch_size))"

section \<open>The cyclic batch streams\<close>

text \<open>
  \<^verbatim>\<open>
    def cycle(iterable):
        while True:
            for it in iterable:
                yield it
    loaders_orig = [DataLoader(dataset, sampler=RandomSampler(dataset), batch_size=args.batch_size,
                          collate_fn=dataset.collate_fn) for dataset in datasets]
    loaders = [iter(cycle(loader)) for loader in loaders_orig]
  \<close>
  An iterable is the function \<open>passes\<close> from the number of a traversal to the items
  that traversal yields: every \<^verbatim>\<open>for\<close> loop over a \<^verbatim>\<open>DataLoader\<close> starts a new
  traversal. The state of the generator is the number of traversals started and what
  is left of the current one; it starts as \<open>(0, [])\<close>. \<^verbatim>\<open>next\<close> yields the head of
  what is left, or starts the next traversal when nothing is left. The generator has
  no \<^verbatim>\<open>return\<close>, so \<^verbatim>\<open>next\<close> yields an item or runs forever (\<open>None\<close>), which it
  does when every further traversal is empty.
\<close>

partial_function (option) cycle_next :: "(nat \<Rightarrow> 'b list) \<Rightarrow> nat \<Rightarrow> 'b list \<Rightarrow> ('b \<times> nat \<times> 'b list) option" where
  "cycle_next passes k cur =
     (case cur of
        it # rest \<Rightarrow> Some (it, k, rest)
      | [] \<Rightarrow> cycle_next passes (Suc k) (passes k))"

text \<open>\<open>pull n\<close> calls \<^verbatim>\<open>next\<close> \<open>n\<close> times and collects what it yields.\<close>

fun pull :: "(nat \<Rightarrow> 'b list) \<Rightarrow> nat \<Rightarrow> nat \<times> 'b list \<Rightarrow> ('b list \<times> nat \<times> 'b list) option" where
  "pull passes 0 st = Some ([], st)"
| "pull passes (Suc n) st =
     (case cycle_next passes (fst st) (snd st) of
        None \<Rightarrow> None
      | Some (it, st') \<Rightarrow>
          (case pull passes n st' of
             None \<Rightarrow> None
           | Some (its, st'') \<Rightarrow> Some (it # its, st'')))"

text \<open>
  One traversal of a \<^verbatim>\<open>DataLoader\<close> with a \<^verbatim>\<open>RandomSampler\<close>: the sampler draws a
  permutation \<open>perm\<close> of the indices of the dataset, the loader reads the examples
  in that order and cuts them into batches of \<open>batch_size\<close>, the last one shorter when
  the size of the dataset is no multiple of it. \<open>perms k\<close> is the permutation drawn
  for the \<open>k\<close>-th traversal. (torch refuses to build the sampler for an empty dataset
  and the loader for a batch size of 0.)
\<close>

fun batches :: "nat \<Rightarrow> 'a list \<Rightarrow> 'a list list" where
  "batches batch_size xs =
     (if batch_size = 0 \<or> xs = [] then []
      else take batch_size xs # batches batch_size (drop batch_size xs))"

declare batches.simps [simp del]

definition loader_pass :: "'a list \<Rightarrow> nat \<Rightarrow> nat list \<Rightarrow> 'a list list" where
  "loader_pass dataset batch_size perm = batches batch_size (map (\<lambda>i. dataset ! i) perm)"

definition loader_passes :: "'a list \<Rightarrow> nat \<Rightarrow> (nat \<Rightarrow> nat list) \<Rightarrow> nat \<Rightarrow> 'a list list" where
  "loader_passes dataset batch_size perms k = loader_pass dataset batch_size (perms k)"

text \<open>
  The property of a stream \<open>xs\<close> of examples that between any two occurrences of the
  same example every other example of the dataset \<open>ds\<close> occurs.
\<close>

definition occurs_between :: "'a list \<Rightarrow> nat \<Rightarrow> nat \<Rightarrow> 'a \<Rightarrow> bool" where
  "occurs_between xs i j e = (e \<in> set (take (j - Suc i) (drop (Suc i) xs)))"

definition repeats_separated :: "'a list \<Rightarrow> 'a list \<Rightarrow> bool" where
  "repeats_separated ds xs =
     list_all (\<lambda>j. list_all (\<lambda>i.
         if xs ! i = xs ! j then list_all (\<lambda>e. e = xs ! i \<or> occurs_between xs i j e) ds else True)
       [0..<j]) [0..<length xs]"

section \<open>The task sampling probabilities\<close>



section \<open>The alpha schedule\<close>

subsection \<open>Python floats\<close>

text \<open>
  A Python float is an IEEE 754 binary64 number: a finite value, which is a rational number,
  an infinity or a NaN. The two zeros are one value here; Python's \<^verbatim>\<open>==\<close> does
  not tell them apart and none of the operations below does. Every operation on
  finite values computes the exact result and rounds it to the nearest
  binary64 number, ties to the even significand.
\<close>

datatype pyfloat = Fin real | PInf | NInf | NaN

text \<open>\<open>bitlen_nat n\<close> is the number of binary digits of \<open>n\<close>, \<open>pow2 e\<close> is \<open>2\<close> to the
  power \<open>e\<close>, and \<open>ilog2 x\<close> is the exponent \<open>e\<close> with \<open>2^e \<le> x < 2^(e + 1)\<close>, for
  a positive \<open>x\<close>.\<close>

fun bitlen_nat :: "nat \<Rightarrow> nat" where
  "bitlen_nat n = (if n = 0 then 0 else Suc (bitlen_nat (n div 2)))"

declare bitlen_nat.simps [simp del]

definition pow2 :: "int \<Rightarrow> real" where
  "pow2 e = (if 0 \<le> e then 2 ^ nat e else 1 / 2 ^ nat (- e))"

definition ilog2 :: "real \<Rightarrow> int" where
  "ilog2 x =
     (if 1 \<le> x then int (bitlen_nat (nat \<lfloor>x\<rfloor>)) - 1
      else - int (bitlen_nat (nat (\<lceil>1 / x\<rceil> - 1))))"

definition round_half_even :: "real \<Rightarrow> int" where
  "round_half_even y =
     (let f = \<lfloor>y\<rfloor>; d = y - of_int f
      in if d < 1 / 2 then f else if 1 / 2 < d then f + 1 else if even f then f else f + 1)"

text \<open>A binary64 number has 53 significant binary digits; below \<open>2^(-1022)\<close> the
  spacing stays \<open>2^(-1074)\<close> (the subnormal numbers).\<close>

definition round_to_double :: "real \<Rightarrow> real" where
  "round_to_double x =
     (if x = 0 then 0
      else let q = max (ilog2 \<bar>x\<bar>) (- 1022) - 52
           in of_int (round_half_even (x / pow2 q)) * pow2 q)"

definition fl :: "real \<Rightarrow> pyfloat" where
  "fl x =
     (let r = round_to_double x
      in if 2 ^ 1024 \<le> r then PInf else if r \<le> - (2 ^ 1024) then NInf else Fin r)"

fun fneg :: "pyfloat \<Rightarrow> pyfloat" where
  "fneg (Fin x) = Fin (- x)"
| "fneg PInf = NInf"
| "fneg NInf = PInf"
| "fneg NaN = NaN"

definition fadd :: "pyfloat \<Rightarrow> pyfloat \<Rightarrow> pyfloat" where
  "fadd a b =
     (case (a, b) of
        (Fin x, Fin y) \<Rightarrow> fl (x + y)
      | (NaN, _) \<Rightarrow> NaN
      | (_, NaN) \<Rightarrow> NaN
      | (PInf, NInf) \<Rightarrow> NaN
      | (NInf, PInf) \<Rightarrow> NaN
      | (PInf, _) \<Rightarrow> PInf
      | (NInf, _) \<Rightarrow> NInf
      | (_, PInf) \<Rightarrow> PInf
      | (_, NInf) \<Rightarrow> NInf)"

definition fsub :: "pyfloat \<Rightarrow> pyfloat \<Rightarrow> pyfloat" where
  "fsub a b = fadd a (fneg b)"

fun fsign :: "pyfloat \<Rightarrow> int" where
  "fsign (Fin x) = (if x < 0 then - 1 else if x = 0 then 0 else 1)"
| "fsign PInf = 1"
| "fsign NInf = - 1"
| "fsign NaN = 0"

definition signed_inf :: "int \<Rightarrow> pyfloat" where
  "signed_inf s = (if s = 0 then NaN else if 0 < s then PInf else NInf)"

definition fmul :: "pyfloat \<Rightarrow> pyfloat \<Rightarrow> pyfloat" where
  "fmul a b =
     (case (a, b) of
        (Fin x, Fin y) \<Rightarrow> fl (x * y)
      | (NaN, _) \<Rightarrow> NaN
      | (_, NaN) \<Rightarrow> NaN
      | _ \<Rightarrow> signed_inf (fsign a * fsign b))"

text \<open>Python's float division raises ZeroDivisionError for a divisor equal to zero,
  whatever the dividend is.\<close>

definition fquot :: "pyfloat \<Rightarrow> pyfloat \<Rightarrow> pyfloat" where
  "fquot a b =
     (case (a, b) of
        (Fin x, Fin y) \<Rightarrow> fl (x / y)
      | (NaN, _) \<Rightarrow> NaN
      | (_, NaN) \<Rightarrow> NaN
      | (Fin x, _) \<Rightarrow> Fin 0
      | (_, Fin y) \<Rightarrow> signed_inf (fsign a * fsign b)
      | _ \<Rightarrow> NaN)"

definition fdiv :: "pyfloat \<Rightarrow> pyfloat \<Rightarrow> py_error + pyfloat" where
  "fdiv a b = (if b = Fin 0 then Inl ZeroDivisionError else Inr (fquot a b))"

text \<open>
  An \<^verbatim>\<open>int\<close> operand of a float operation is converted to a float first, rounded
  like every result, with an OverflowError when it is too large. The quotient
  \<^verbatim>\<open>/\<close> of two ints is the correctly rounded float of the exact quotient.
\<close>

definition float_of_int :: "int \<Rightarrow> py_error + pyfloat" where
  "float_of_int n = (case fl (of_int n) of Fin r \<Rightarrow> Inr (Fin r) | _ \<Rightarrow> Inl OverflowError)"

definition fmul_int :: "pyfloat \<Rightarrow> int \<Rightarrow> py_error + pyfloat" where
  "fmul_int a n = (case float_of_int n of Inl e \<Rightarrow> Inl e | Inr b \<Rightarrow> Inr (fmul a b))"

definition fdiv_int :: "pyfloat \<Rightarrow> int \<Rightarrow> py_error + pyfloat" where
  "fdiv_int a n = (case float_of_int n of Inl e \<Rightarrow> Inl e | Inr b \<Rightarrow> fdiv a b)"

definition int_truediv :: "int \<Rightarrow> int \<Rightarrow> py_error + pyfloat" where
  "int_truediv a b =
     (if b = 0 then Inl ZeroDivisionError
      else case fl (of_int a / of_int b) of Fin r \<Rightarrow> Inr (Fin r) | _ \<Rightarrow> Inl OverflowError)"

text \<open>
  The power \<^verbatim>\<open>x ** y\<close> of two floats is 1.0 whenever \<open>y\<close> is zero; Python decides
  this before anything else. Every other case (the special values, the call of the C
  library's \<^verbatim>\<open>pow\<close>, its errors, the complex result for a negative base with a
  fractional exponent) is the parameter \<open>rest\<close>.
\<close>

definition fpow :: "(pyfloat \<Rightarrow> pyfloat \<Rightarrow> py_error + pyfloat) \<Rightarrow> pyfloat \<Rightarrow> pyfloat \<Rightarrow> py_error + pyfloat" where
  "fpow rest x y = (if y = Fin 0 then Inr (Fin 1) else rest x y)"

text \<open>Python's \<^verbatim>\<open>>\<close> on floats: false as soon as one side is a NaN.\<close>

definition fgt :: "pyfloat \<Rightarrow> pyfloat \<Rightarrow> bool" where
  "fgt a b =
     (case (a, b) of
        (NaN, _) \<Rightarrow> False
      | (_, NaN) \<Rightarrow> False
      | (Fin x, Fin y) \<Rightarrow> y < x
      | (PInf, PInf) \<Rightarrow> False
      | (PInf, _) \<Rightarrow> True
      | (_, PInf) \<Rightarrow> False
      | (NInf, _) \<Rightarrow> False
      | (_, NInf) \<Rightarrow> True)"

subsection \<open>The schedule\<close>

text \<open>
  \<^verbatim>\<open>
    def compute_alpha(epoch, total_epoch, alpha_start=1.0, alpha_end=0.2, linear_decay=True):
        assert 0 <= epoch < total_epoch
        if linear_decay:
            drop = alpha_start - alpha_end
            return alpha_start - drop * epoch / (total_epoch-1)
        else: # Exponential Decay
            ratio = epoch / (total_epoch-1)
            return alpha_start * ((alpha_end / alpha_start) ** ratio)
  \<close>
  \<open>epoch\<close> and \<open>total_epoch\<close> are Python ints. The function is written once, over
  the operations it uses, and read twice: with the binary64 operations that the
  code runs (\<open>binary64\<close>), and with the exact operations of the reals (\<open>exact\<close>).
\<close>

record 'a arith =
  a_sub :: "'a \<Rightarrow> 'a \<Rightarrow> 'a"
  a_mul :: "'a \<Rightarrow> 'a \<Rightarrow> 'a"
  a_div :: "'a \<Rightarrow> 'a \<Rightarrow> py_error + 'a"
  a_pow :: "'a \<Rightarrow> 'a \<Rightarrow> py_error + 'a"
  a_mul_int :: "'a \<Rightarrow> int \<Rightarrow> py_error + 'a"
  a_div_int :: "'a \<Rightarrow> int \<Rightarrow> py_error + 'a"
  a_int_div :: "int \<Rightarrow> int \<Rightarrow> py_error + 'a"

definition compute_alpha :: "'a arith \<Rightarrow> int \<Rightarrow> int \<Rightarrow> 'a \<Rightarrow> 'a \<Rightarrow> bool \<Rightarrow> py_error + 'a" where
  "compute_alpha ar epoch total_epoch alpha_start alpha_end linear_decay =
     (if \<not> (0 \<le> epoch \<and> epoch < total_epoch) then Inl AssertionError
      else if linear_decay then
        (let drop = a_sub ar alpha_start alpha_end
         in case a_mul_int ar drop epoch of
              Inl e \<Rightarrow> Inl e
            | Inr x \<Rightarrow>
                (case a_div_int ar x (total_epoch - 1) of
                   Inl e \<Rightarrow> Inl e
                 | Inr y \<Rightarrow> Inr (a_sub ar alpha_start y)))
      else
        (case a_int_div ar epoch (total_epoch - 1) of
           Inl e \<Rightarrow> Inl e
         | Inr ratio \<Rightarrow>
             (case a_div ar alpha_end alpha_start of
                Inl e \<Rightarrow> Inl e
              | Inr b \<Rightarrow>
                  (case a_pow ar b ratio of
                     Inl e \<Rightarrow> Inl e
                   | Inr p \<Rightarrow> Inr (a_mul ar alpha_start p)))))"

definition binary64 :: "(pyfloat \<Rightarrow> pyfloat \<Rightarrow> py_error + pyfloat) \<Rightarrow> pyfloat arith" where
  "binary64 rest =
     \<lparr>a_sub = fsub, a_mul = fmul, a_div = fdiv, a_pow = fpow rest,
      a_mul_int = fmul_int, a_div_int = fdiv_int, a_int_div = int_truediv\<rparr>"

text \<open>The exact reading: the operations of the reals, with the same errors for a
  divisor 0. The power of a positive base is \<open>powr\<close>; for any other base with an
  exponent that is not 0 it is again a parameter.\<close>

definition exact :: "(real \<Rightarrow> real \<Rightarrow> py_error + real) \<Rightarrow> real arith" where
  "exact rest =
     \<lparr>a_sub = (\<lambda>x y. x - y), a_mul = (\<lambda>x y. x * y),
      a_div = (\<lambda>x y. if y = 0 then Inl ZeroDivisionError else Inr (x / y)),
      a_pow = (\<lambda>x y. if y = 0 then Inr 1 else if 0 < x then Inr (x powr y) else rest x y),
      a_mul_int = (\<lambda>x n. Inr (x * of_int n)),
      a_div_int = (\<lambda>x n. if n = 0 then Inl ZeroDivisionError else Inr (x / of_int n)),
      a_int_div = (\<lambda>a b. if b = 0 then Inl ZeroDivisionError else Inr (of_int a / of_int b))\<rparr>"

section \<open>Checkpointing at the end of an epoch\<close>

text \<open>
  The part of \<^verbatim>\<open>train_multitask\<close> that decides about checkpoints:
  \<^verbatim>\<open>
    best_avg_dev_acc = 0
    for epoch in range(args.epochs):
        ...
        avg_dev_acc = (dev_sentiment_accuracy + dev_paraphrase_accuracy + dev_sts_corr) / 3
        if avg_dev_acc > best_avg_dev_acc:
            best_avg_dev_acc = avg_dev_acc
            save_model(model, optimizer, args, config, args.filepath)
  \<close>
  The three dev metrics are floats, and so are their sum, taken from left to right,
  and its quotient by 3 (the int 3 converts to the float 3.0, which is not zero, so the
  division raises nothing). \<^verbatim>\<open>save_model\<close> builds one record and hands it to
  \<^verbatim>\<open>torch.save(save_info, filepath)\<close>, which replaces whatever the file held. The
  file system is a map from paths to contents; \<open>writes\<close> logs every call of
  \<^verbatim>\<open>torch.save\<close> in order. The snapshot \<open>'c\<close> stands for the saved record (model,
  optimizer, args, config, RNG states).
\<close>

record 'c train_state =
  best_avg_dev_acc :: pyfloat
  files :: "string \<rightharpoonup> 'c"
  writes :: "(string \<times> 'c) list"

definition save_model :: "'c \<Rightarrow> string \<Rightarrow> 'c train_state \<Rightarrow> 'c train_state" where
  "save_model save_info filepath st =
     st\<lparr>files := (files st)(filepath \<mapsto> save_info),
        writes := writes st @ [(filepath, save_info)]\<rparr>"

definition avg_dev_acc :: "pyfloat \<times> pyfloat \<times> pyfloat \<Rightarrow> pyfloat" where
  "avg_dev_acc m = (case m of (dev_sentiment_accuracy, dev_paraphrase_accuracy, dev_sts_corr) \<Rightarrow>
     fquot (fadd (fadd dev_sentiment_accuracy dev_paraphrase_accuracy) dev_sts_corr) (Fin 3))"

definition epoch_end :: "string \<Rightarrow> 'c \<times> (pyfloat \<times> pyfloat \<times> pyfloat) \<Rightarrow> 'c train_state \<Rightarrow> 'c train_state" where
  "epoch_end filepath ep st =
     (if fgt (avg_dev_acc (snd ep)) (best_avg_dev_acc st)
      then save_model (fst ep) filepath (st\<lparr>best_avg_dev_acc := avg_dev_acc (snd ep)\<rparr>)
      else st)"

definition init_state :: "(string \<rightharpoonup> 'c) \<Rightarrow> 'c train_state" where
  "init_state fs = \<lparr>best_avg_dev_acc = Fin 0, files = fs, writes = []\<rparr>"

text \<open>The epoch loop: one entry of the list per epoch, holding the snapshot the
  model has after that epoch's training and its three dev metrics.\<close>

fun run_epochs :: "string \<Rightarrow> ('c \<times> (pyfloat \<times> pyfloat \<times> pyfloat)) list \<Rightarrow> 'c train_state \<Rightarrow> 'c train_state" where
  "run_epochs filepath [] st = st"
| "run_epochs filepath (ep # eps) st = run_epochs filepath eps (epoch_end filepath ep st)"

definition train_multitask ::
  "string \<Rightarrow> (string \<rightharpoonup> 'c) \<Rightarrow> ('c \<times> (pyfloat \<times> pyfloat \<times> pyfloat)) list \<Rightarrow> 'c train_state" where
  "train_multitask filepath fs eps = run_epochs filepath eps (init_state fs)"

section \<open>Properties of the model\<close>

lemma length_dropout: "length (dropout noise x) = length x"
  by (simp add: dropout_def)

lemma dropout_rows:
  "list_all (\<lambda>row. length row = n) x \<Longrightarrow> list_all (\<lambda>row. length row = n) (dropout noise x)"
  by (auto simp: dropout_def list_all_iff dest: set_zip_rightD)

lemma linear_apply_Linear:
  assumes "list_all (\<lambda>row. length row = n_in) x"
  shows "\<exists>y. linear_apply (Linear w b n_in n_out) x = Inr y \<and> length y = length x \<and>
           list_all (\<lambda>row. length row = n_out) y"
  using assms by (auto simp: linear_apply_def Linear_def list_all_iff)

lemma cat_dim1_rows:
  assumes "length a = length b" "list_all (\<lambda>row. length row = n) a" "list_all (\<lambda>row. length row = n) b"
  shows "\<exists>c. cat_dim1 a b = Inr c \<and> length c = length a \<and> list_all (\<lambda>row. length row = n * 2) c"
  using assms by (auto simp: cat_dim1_def list_all_iff set_zip)

lemma squeeze_last_one:
  "list_all (\<lambda>row. length row = 1) y \<Longrightarrow> \<exists>v. squeeze_last y = T1 v \<and> length v = length y"
  by (simp add: squeeze_last_def)

lemma forward_contract:
  assumes "init_model pretrained w b cfg = Inr m" "encoder_contract pretrained (hidden_size cfg)"
    "length msk = length ids"
  shows "\<exists>p. forward m call ids msk = Inr p \<and> length p = length ids \<and>
          list_all (\<lambda>row. length row = hidden_size cfg) p"
proof -
  from assms(1) have "bert_call (bert m) = bert_call pretrained"
    by (auto simp: init_model_def split: if_splits)
  with assms(2,3) show ?thesis
    unfolding forward_def encoder_contract_def by simp
qed

lemma pair_head_shape:
  assumes m: "init_model pretrained w b cfg = Inr m"
    and enc: "encoder_contract pretrained (hidden_size cfg)"
    and len: "length mask1 = length ids1" "length ids2 = length ids1" "length mask2 = length ids1"
  shows "\<exists>v. pair_head (Linear w1 b1 (hidden_size cfg) 1) (Linear w2 b2 (hidden_size cfg * 2) 1) m noise
            ids1 mask1 ids2 mask2 = Inr (T1 v) \<and> length v = length ids1"
proof -
  obtain p1 where p1: "forward m 0 ids1 mask1 = Inr p1" "length p1 = length ids1"
      "list_all (\<lambda>row. length row = hidden_size cfg) p1"
    using forward_contract [OF m enc len(1)] by blast
  show ?thesis
  proof (cases "self_siamese m")
    case False
    obtain y where y: "linear_apply (Linear w1 b1 (hidden_size cfg) 1) (dropout noise p1) = Inr y"
        "length y = length (dropout noise p1)" "list_all (\<lambda>row. length row = 1) y"
      using linear_apply_Linear [OF dropout_rows [OF p1(3)]] by blast
    obtain v where "squeeze_last y = T1 v" "length v = length y"
      using squeeze_last_one [OF y(3)] by blast
    with False p1 y show ?thesis by (simp add: pair_head_def length_dropout)
  next
    case True
    have "length mask2 = length ids2" using len by simp
    then obtain p2 where p2: "forward m 1 ids2 mask2 = Inr p2" "length p2 = length ids2"
        "list_all (\<lambda>row. length row = hidden_size cfg) p2"
      using forward_contract [OF m enc] by blast
    have "length p1 = length p2" using p1 p2 len by simp
    then obtain c where c: "cat_dim1 p1 p2 = Inr c" "length c = length p1"
        "list_all (\<lambda>row. length row = hidden_size cfg * 2) c"
      using cat_dim1_rows [OF _ p1(3) p2(3)] by blast
    obtain y where y: "linear_apply (Linear w2 b2 (hidden_size cfg * 2) 1) (dropout noise c) = Inr y"
        "length y = length (dropout noise c)" "list_all (\<lambda>row. length row = 1) y"
      using linear_apply_Linear [OF dropout_rows [OF c(3)]] by blast
    obtain v where "squeeze_last y = T1 v" "length v = length y"
      using squeeze_last_one [OF y(3)] by blast
    with True p1 p2 c y show ?thesis by (simp add: pair_head_def length_dropout)
  qed
qed

lemma example_init: "init_model example_bert (\<lambda>k i j. 1 / 2) (\<lambda>k i. 0) example_config = Inr example_model"
  by (simp add: init_model_def example_bert_def example_config_def example_model_def set_requires_grad_def)

lemma example_contract: "encoder_contract example_bert 2"
  by (simp add: encoder_contract_def example_bert_def list_all_iff)

lemma example_init_full:
  "init_model example_bert (\<lambda>k i j. 1 / 2) (\<lambda>k i. 0) (example_config\<lparr>fine_tune_mode := ''full-model''\<rparr>)
     = Inr (example_model\<lparr>bert := example_bert\<rparr>)"
  by (simp add: init_model_def example_bert_def example_config_def example_model_def set_requires_grad_def)

text \<open>
  Claim C3. In single-encoding mode (\<^verbatim>\<open>self.siamese\<close> false),
  \<^verbatim>\<open>predict_paraphrase\<close> and \<^verbatim>\<open>predict_similarity\<close> do not depend on the second
  sequence: two calls with the same model, the same dropout factors and the same first
  token ids and mask return the same result (the same tensor, or the same error),
  whatever the second token ids and mask are.
\<close>

theorem second_sequence_ignored:
  "\<not> self_siamese m \<Longrightarrow>
     predict_paraphrase m noise ids1 mask1 ids2 mask2 = predict_paraphrase m noise ids1 mask1 ids2' mask2' \<and>
     predict_similarity m noise ids1 mask1 ids2 mask2 = predict_similarity m noise ids1 mask1 ids2' mask2'"
  by (simp add: predict_paraphrase_def predict_similarity_def pair_head_def)

theorem second_sequence_ignored_witness:
  "\<not> self_siamese example_model \<and>
   predict_paraphrase example_model (\<lambda>i j. 1) [[1, 2]] [[1, 1]] [[3]] [[1]] =
     predict_paraphrase example_model (\<lambda>i j. 1) [[1, 2]] [[1, 1]] [[7, 8, 9]] [[1, 1, 1]] \<and>
   predict_similarity example_model (\<lambda>i j. 1) [[1, 2]] [[1, 1]] [[3]] [[1]] =
     predict_similarity example_model (\<lambda>i j. 1) [[1, 2]] [[1, 1]] [[7, 8, 9]] [[1, 1, 1]] \<and>
   predict_paraphrase example_model (\<lambda>i j. 1) [[1, 2]] [[1, 1]] [[3]] [[1]] = Inr (T1 [5 / 2])"
proof -
  have s: "\<not> self_siamese example_model" by (simp add: example_model_def)
  have v: "predict_paraphrase example_model (\<lambda>i j. 1) [[1, 2]] [[1, 1]] [[3]] [[1]] = Inr (T1 [5 / 2])"
    by (simp add: predict_paraphrase_def pair_head_def example_model_def example_bert_def forward_def
        dropout_def linear_apply_def Linear_def dot_def squeeze_last_def upt_rec)
  show ?thesis
    using s v second_sequence_ignored [OF s, of "\<lambda>i j. 1" "[[1, 2]]" "[[1, 1]]" "[[3]]" "[[1]]" "[[7, 8, 9]]" "[[1, 1, 1]]"]
    by simp
qed

text \<open>
  Claim C8. For a model built by \<^verbatim>\<open>__init__\<close> and an encoder that returns one pooled
  vector of width \<^verbatim>\<open>config.hidden_size\<close> per input row, on a batch of \<open>B\<close> rows
  \<^verbatim>\<open>predict_sentiment\<close> returns a two-dimensional tensor of \<open>B\<close> rows of
  \<^verbatim>\<open>config.num_labels\<close> logits each (the number of sentiment classes, which the
  training loop reads from the data; 5 in the instance of the witness), and
  \<^verbatim>\<open>predict_paraphrase\<close> and \<^verbatim>\<open>predict_similarity\<close> each return a
  one-dimensional tensor of \<open>B\<close> scalars, whether \<^verbatim>\<open>config.siamese\<close> is set or not.
\<close>

theorem output_shapes:
  assumes m: "init_model pretrained w b cfg = Inr m"
    and enc: "encoder_contract pretrained (hidden_size cfg)"
    and len: "length mask1 = length ids1" "length ids2 = length ids1" "length mask2 = length ids1"
  shows "(\<exists>logits. predict_sentiment m noise ids1 mask1 = Inr (T2 logits) \<and>
            length logits = length ids1 \<and> list_all (\<lambda>row. length row = num_labels cfg) logits) \<and>
         (\<exists>v. predict_paraphrase m noise ids1 mask1 ids2 mask2 = Inr (T1 v) \<and> length v = length ids1) \<and>
         (\<exists>v. predict_similarity m noise ids1 mask1 ids2 mask2 = Inr (T1 v) \<and> length v = length ids1)"
proof (intro conjI)
  obtain p1 where p1: "forward m 0 ids1 mask1 = Inr p1" "length p1 = length ids1"
      "list_all (\<lambda>row. length row = hidden_size cfg) p1"
    using forward_contract [OF m enc len(1)] by blast
  have sst: "sst_dense m = Linear (w 0) (b 0) (hidden_size cfg) (num_labels cfg)"
    using m by (auto simp: init_model_def split: if_splits)
  obtain y where "linear_apply (sst_dense m) (dropout noise p1) = Inr y"
      "length y = length (dropout noise p1)" "list_all (\<lambda>row. length row = num_labels cfg) y"
    using linear_apply_Linear [OF dropout_rows [OF p1(3)]] unfolding sst by blast
  with p1 show "\<exists>logits. predict_sentiment m noise ids1 mask1 = Inr (T2 logits) \<and>
            length logits = length ids1 \<and> list_all (\<lambda>row. length row = num_labels cfg) logits"
    by (simp add: predict_sentiment_def length_dropout)
next
  have "para_dense m = Linear (w 1) (b 1) (hidden_size cfg) 1"
    "para_dense_siamese m = Linear (w 2) (b 2) (hidden_size cfg * 2) 1"
    using m by (auto simp: init_model_def split: if_splits)
  then show "\<exists>v. predict_paraphrase m noise ids1 mask1 ids2 mask2 = Inr (T1 v) \<and> length v = length ids1"
    using pair_head_shape [OF m enc len] by (simp add: predict_paraphrase_def)
next
  have "sts_dense m = Linear (w 3) (b 3) (hidden_size cfg) 1"
    "sts_dense_siamese m = Linear (w 4) (b 4) (hidden_size cfg * 2) 1"
    using m by (auto simp: init_model_def split: if_splits)
  then show "\<exists>v. predict_similarity m noise ids1 mask1 ids2 mask2 = Inr (T1 v) \<and> length v = length ids1"
    using pair_head_shape [OF m enc len] by (simp add: predict_similarity_def)
qed

theorem output_shapes_witness:
  "init_model example_bert (\<lambda>k i j. 1 / 2) (\<lambda>k i. 0) example_config = Inr example_model \<and>
   encoder_contract example_bert (hidden_size example_config) \<and>
   num_labels example_config = 5 \<and>
   (\<exists>logits. predict_sentiment example_model (\<lambda>i j. 1) [[1, 2], [3]] [[1, 1], [1]] = Inr (T2 logits) \<and>
       length logits = 2 \<and> list_all (\<lambda>row. length row = 5) logits) \<and>
   (\<exists>v. predict_paraphrase example_model (\<lambda>i j. 1) [[1, 2], [3]] [[1, 1], [1]] [[4], [5, 6]] [[1], [1, 1]] = Inr (T1 v)
       \<and> length v = 2) \<and>
   (\<exists>v. predict_similarity example_model (\<lambda>i j. 1) [[1, 2], [3]] [[1, 1], [1]] [[4], [5, 6]] [[1], [1, 1]] = Inr (T1 v)
       \<and> length v = 2)"
proof -
  have h: "hidden_size example_config = 2" "num_labels example_config = 5"
    by (simp_all add: example_config_def)
  have c: "encoder_contract example_bert (hidden_size example_config)"
    using example_contract by (simp add: h)
  have r: "(\<exists>logits. predict_sentiment example_model (\<lambda>i j. 1) [[1, 2], [3]] [[1, 1], [1]] = Inr (T2 logits) \<and>
       length logits = length [[1, 2], [3::nat]] \<and> list_all (\<lambda>row. length row = num_labels example_config) logits) \<and>
   (\<exists>v. predict_paraphrase example_model (\<lambda>i j. 1) [[1, 2], [3]] [[1, 1], [1]] [[4], [5, 6]] [[1], [1, 1]] = Inr (T1 v)
       \<and> length v = length [[1, 2], [3::nat]]) \<and>
   (\<exists>v. predict_similarity example_model (\<lambda>i j. 1) [[1, 2], [3]] [[1, 1], [1]] [[4], [5, 6]] [[1], [1, 1]] = Inr (T1 v)
       \<and> length v = length [[1, 2], [3::nat]])"
    by (rule output_shapes [OF example_init c]) simp_all
  have l: "length [[1, 2], [3::nat]] = 2" by simp
  show ?thesis
    using r example_init c unfolding l h by blast
qed

section \<open>Properties of the fine-tune mode\<close>

lemma step_param_frozen: "\<not> requires_grad p \<Longrightarrow> step_param upd p = p"
  by (simp add: step_param_def)

lemma map_step_frozen:
  "list_all (\<lambda>p. \<not> requires_grad p) ps \<Longrightarrow>
     map (\<lambda>(i, p). step_param (ub i) p) (zip [0..<length ps] ps) = ps"
  by (rule nth_equalityI) (simp_all add: list_all_length step_param_def)

text \<open>
  Claim C4. A model is constructed only with mode \<^verbatim>\<open>last-linear-layer\<close> or
  \<^verbatim>\<open>full-model\<close>. With \<^verbatim>\<open>last-linear-layer\<close> every encoder parameter has
  \<^verbatim>\<open>requires_grad = False\<close> and a training step leaves the whole encoder as it
  was; with \<^verbatim>\<open>full-model\<close> every encoder parameter has \<^verbatim>\<open>requires_grad = True\<close>
  and a step replaces each by its update. Construction does not change the values of
  the encoder's parameters. In both modes the heads' weights and biases are replaced
  by their updates.
\<close>

theorem encoder_trainability:
  assumes m: "init_model pretrained w b cfg = Inr m"
  shows "(fine_tune_mode cfg = ''last-linear-layer'' \<or> fine_tune_mode cfg = ''full-model'') \<and>
    (fine_tune_mode cfg = ''last-linear-layer'' \<longrightarrow>
       list_all (\<lambda>p. \<not> requires_grad p) (bert_parameters (bert m)) \<and>
       bert (train_step ub uw uv m) = bert m) \<and>
    (fine_tune_mode cfg = ''full-model'' \<longrightarrow>
       list_all requires_grad (bert_parameters (bert m)) \<and>
       map data (bert_parameters (bert (train_step ub uw uv m))) =
         map (\<lambda>(i, p). ub i (data p)) (zip [0..<length (bert_parameters pretrained)] (bert_parameters pretrained))) \<and>
    map data (bert_parameters (bert m)) = map data (bert_parameters pretrained) \<and>
    data (weight (sst_dense (train_step ub uw uv m))) = uw 0 (data (weight (sst_dense m))) \<and>
    data (bias (sst_dense (train_step ub uw uv m))) = uv 0 (data (bias (sst_dense m))) \<and>
    data (weight (para_dense (train_step ub uw uv m))) = uw 1 (data (weight (para_dense m))) \<and>
    data (weight (sts_dense (train_step ub uw uv m))) = uw 3 (data (weight (sts_dense m)))"
proof -
  have mode: "fine_tune_mode cfg = ''last-linear-layer'' \<or> fine_tune_mode cfg = ''full-model''"
    using m by (auto simp: init_model_def split: if_splits)
  have bp: "bert_parameters (bert m) = map (set_requires_grad (fine_tune_mode cfg)) (bert_parameters pretrained)"
    using m by (auto simp: init_model_def split: if_splits)
  have heads: "sst_dense m = Linear (w 0) (b 0) (hidden_size cfg) (num_labels cfg)"
    "para_dense m = Linear (w 1) (b 1) (hidden_size cfg) 1"
    "sts_dense m = Linear (w 3) (b 3) (hidden_size cfg) 1"
    using m by (auto simp: init_model_def split: if_splits)
  have frozen: "list_all (\<lambda>p. \<not> requires_grad p) (bert_parameters (bert m)) \<and>
       bert (train_step ub uw uv m) = bert m" if f: "fine_tune_mode cfg = ''last-linear-layer''"
  proof -
    have a: "list_all (\<lambda>p. \<not> requires_grad p) (bert_parameters (bert m))"
      by (simp add: bp f list_all_iff set_requires_grad_def)
    have "map (\<lambda>(i, p). step_param (ub i) p)
            (zip [0..<length (bert_parameters (bert m))] (bert_parameters (bert m))) = bert_parameters (bert m)"
      by (rule map_step_frozen [OF a])
    then show ?thesis using a by (simp add: train_step_def)
  qed
  have full: "list_all requires_grad (bert_parameters (bert m)) \<and>
       map data (bert_parameters (bert (train_step ub uw uv m))) =
         map (\<lambda>(i, p). ub i (data p)) (zip [0..<length (bert_parameters pretrained)] (bert_parameters pretrained))"
    if f: "fine_tune_mode cfg = ''full-model''"
  proof -
    have a: "list_all requires_grad (bert_parameters (bert m))"
      by (simp add: bp f list_all_iff set_requires_grad_def)
    have "map data (bert_parameters (bert (train_step ub uw uv m))) =
        map (\<lambda>(i, p). ub i (data p)) (zip [0..<length (bert_parameters pretrained)] (bert_parameters pretrained))"
      by (simp add: train_step_def bp f zip_map2 set_requires_grad_def step_param_def split_def)
    with a show ?thesis by simp
  qed
  have vals: "map data (bert_parameters (bert m)) = map data (bert_parameters pretrained)"
    using mode by (auto simp: bp set_requires_grad_def)
  have h: "data (weight (sst_dense (train_step ub uw uv m))) = uw 0 (data (weight (sst_dense m)))"
    "data (bias (sst_dense (train_step ub uw uv m))) = uv 0 (data (bias (sst_dense m)))"
    "data (weight (para_dense (train_step ub uw uv m))) = uw 1 (data (weight (para_dense m)))"
    "data (weight (sts_dense (train_step ub uw uv m))) = uw 3 (data (weight (sts_dense m)))"
    by (simp_all add: train_step_def step_linear_def step_param_def heads Linear_def)
  show ?thesis using mode frozen full vals h by blast
qed

theorem encoder_trainability_witness:
  "init_model example_bert (\<lambda>k i j. 1 / 2) (\<lambda>k i. 0) example_config = Inr example_model \<and>
   fine_tune_mode example_config = ''last-linear-layer'' \<and>
   list_all (\<lambda>p. \<not> requires_grad p) (bert_parameters (bert example_model)) \<and>
   bert (train_step (\<lambda>i. map ((+) 1)) (\<lambda>k. map (map ((+) 1))) (\<lambda>k. map ((+) 1)) example_model) = bert example_model \<and>
   init_model example_bert (\<lambda>k i j. 1 / 2) (\<lambda>k i. 0) (example_config\<lparr>fine_tune_mode := ''full-model''\<rparr>)
     = Inr (example_model\<lparr>bert := example_bert\<rparr>) \<and>
   fine_tune_mode (example_config\<lparr>fine_tune_mode := ''full-model''\<rparr>) = ''full-model'' \<and>
   list_all requires_grad (bert_parameters (bert (example_model\<lparr>bert := example_bert\<rparr>))) \<and>
   map data (bert_parameters (bert (train_step (\<lambda>i. map ((+) 1)) (\<lambda>k. map (map ((+) 1))) (\<lambda>k. map ((+) 1))
       (example_model\<lparr>bert := example_bert\<rparr>)))) = [[2, 3], [4]]"
proof -
  have f: "fine_tune_mode example_config = ''last-linear-layer''"
    "fine_tune_mode (example_config\<lparr>fine_tune_mode := ''full-model''\<rparr>) = ''full-model''"
    by (simp_all add: example_config_def)
  have z: "map (\<lambda>(i, p). map ((+) 1) (data p)) (zip [0..<length (bert_parameters example_bert)] (bert_parameters example_bert))
      = [[2, 3], [4::real]]"
    by (simp add: example_bert_def upt_rec)
  show ?thesis
    using encoder_trainability [OF example_init, of "\<lambda>i. map ((+) 1)" "\<lambda>k. map (map ((+) 1))" "\<lambda>k. map ((+) 1)"]
      encoder_trainability [OF example_init_full, of "\<lambda>i. map ((+) 1)" "\<lambda>k. map (map ((+) 1))" "\<lambda>k. map ((+) 1)"]
      example_init example_init_full f z
    by simp
qed

section \<open>Properties of the sentiment loss\<close>

lemma example_losses_valid:
  assumes "length ys = length rows"
    and "list_all (\<lambda>(row, y). 0 \<le> y \<and> y < int (length row)) (zip rows ys)"
  shows "example_losses rows ys = Inr (map2 (\<lambda>row y. nll row (nat y)) rows ys)"
  using assms
proof (induction rows ys rule: example_losses.induct)
  case (1 row rows y ys)
  then show ?case by (simp add: example_loss_def)
qed simp_all

text \<open>
  Claim C5. For a batch of logits and integer labels that are classes of their rows,
  and a configured batch size above 0, the sentiment loss is the sum over the batch at
  hand of the cross-entropy losses of its examples, divided by the configured batch
  size \<^verbatim>\<open>args.batch_size\<close>. The mean reduction would divide the same sum by the size
  of the batch at hand, so on a batch of another size than the configured one (the
  last, partial batch of a pass) the loss is not the per-example mean, unless the sum
  is 0.
\<close>

theorem sst_loss_sum_over_batch_size:
  assumes "length b_labels = length logits"
    and "list_all (\<lambda>(row, y). 0 \<le> y \<and> y < int (length row)) (zip logits b_labels)"
    and "0 < batch_size"
  shows "sst_loss batch_size logits b_labels =
           Inr (sum_list (map2 (\<lambda>row y. nll row (nat y)) logits b_labels) / real batch_size) \<and>
         cross_entropy logits b_labels ReduceMean =
           Inr (sum_list (map2 (\<lambda>row y. nll row (nat y)) logits b_labels) / real (length logits)) \<and>
         (length logits \<noteq> batch_size \<and> logits \<noteq> [] \<and>
            sum_list (map2 (\<lambda>row y. nll row (nat y)) logits b_labels) \<noteq> 0
          \<longrightarrow> sst_loss batch_size logits b_labels \<noteq> cross_entropy logits b_labels ReduceMean)"
proof -
  let ?s = "sum_list (map2 (\<lambda>row y. nll row (nat y)) logits b_labels)"
  have l: "example_losses logits b_labels = Inr (map2 (\<lambda>row y. nll row (nat y)) logits b_labels)"
    by (rule example_losses_valid [OF assms(1,2)])
  have n: "filter (\<lambda>y. y \<noteq> - 100) b_labels = b_labels"
  proof (rule filter_True, rule ballI)
    fix y assume "y \<in> set b_labels"
    then obtain i where i: "i < length b_labels" "b_labels ! i = y" by (auto simp: in_set_conv_nth)
    then have "(logits ! i, y) \<in> set (zip logits b_labels)"
      using assms(1) by (auto simp: set_zip)
    then have "0 \<le> y" using assms(2) by (auto simp: list_all_iff)
    then show "y \<noteq> - 100" by simp
  qed
  have a: "sst_loss batch_size logits b_labels = Inr (?s / real batch_size)"
    by (simp add: sst_loss_def cross_entropy_def l assms(1))
  have b: "cross_entropy logits b_labels ReduceMean = Inr (?s / real (length logits))"
    by (simp add: cross_entropy_def l n assms(1))
  have c: "sst_loss batch_size logits b_labels \<noteq> cross_entropy logits b_labels ReduceMean"
    if "length logits \<noteq> batch_size" "logits \<noteq> []" "?s \<noteq> 0"
  proof -
    have "?s / real batch_size \<noteq> ?s / real (length logits)"
      using that assms(3) by (simp add: field_simps)
    then show ?thesis by (simp add: a b)
  qed
  show ?thesis using a b c by blast
qed

theorem sst_loss_sum_over_batch_size_witness:
  "length [1::int] = length [[0, 0::real]] \<and>
   list_all (\<lambda>(row, y). 0 \<le> y \<and> y < int (length row)) (zip [[0, 0::real]] [1::int]) \<and>
   (0::nat) < 8 \<and>
   sst_loss 8 [[0, 0]] [1] = Inr (ln 2 / 8) \<and>
   cross_entropy [[0, 0]] [1] ReduceMean = Inr (ln 2) \<and>
   sst_loss 8 [[0, 0]] [1] \<noteq> cross_entropy [[0, 0]] [1] ReduceMean"
proof -
  have h: "length [1::int] = length [[0, 0::real]]"
    "list_all (\<lambda>(row, y). 0 \<le> y \<and> y < int (length row)) (zip [[0, 0::real]] [1::int])"
    "(0::nat) < 8"
    by simp_all
  have s: "sum_list (map2 (\<lambda>row y. nll row (nat y)) [[0, 0::real]] [1::int]) = ln 2"
    by (simp add: nll_def)
  have "ln (2::real) \<noteq> 0" by simp
  then show ?thesis
    using sst_loss_sum_over_batch_size [OF h] h unfolding s by simp
qed

section \<open>Properties of the cyclic batch streams\<close>

lemma cycle_next_Cons: "cycle_next passes k (it # rest) = Some (it, k, rest)"
  by (simp add: cycle_next.simps)

lemma cycle_next_Nil: "cycle_next passes k [] = cycle_next passes (Suc k) (passes k)"
  by (subst cycle_next.simps) simp

lemma length_concat_passes:
  assumes ne: "\<And>k. passes k \<noteq> []"
  shows "n \<le> length (concat (map passes [k..<k + n]))"
proof (induction n)
  case 0
  show ?case by simp
next
  case (Suc n)
  have "1 \<le> length (passes (k + n))"
    using ne [of "k + n"] by (cases "passes (k + n)") auto
  with Suc show ?case by simp
qed

lemma pull_stream:
  assumes ne: "\<And>k. passes k \<noteq> []"
  shows "\<exists>st'. pull passes n (k, cur) = Some (take n (cur @ concat (map passes [k..<k + n])), st')"
proof (induction n arbitrary: k cur)
  case 0
  show ?case by simp
next
  case (Suc n)
  show ?case
  proof (cases cur)
    case (Cons it rest)
    obtain st' where p: "pull passes n (k, rest) = Some (take n (rest @ concat (map passes [k..<k + n])), st')"
      using Suc.IH by blast
    have "n \<le> length (concat (map passes [k..<k + n]))"
      by (rule length_concat_passes [OF ne])
    then have "take n (rest @ concat (map passes [k..<k + n]) @ passes (k + n))
        = take n (rest @ concat (map passes [k..<k + n]))"
      by simp
    with p Cons show ?thesis by (simp add: cycle_next_Cons)
  next
    case Nil
    obtain it rest where pk: "passes k = it # rest"
      using ne [of k] by (cases "passes k") auto
    obtain st' where p: "pull passes n (Suc k, rest)
        = Some (take n (rest @ concat (map passes [Suc k..<Suc k + n])), st')"
      using Suc.IH by blast
    have "[k..<k + Suc n] = k # [Suc k..<Suc k + n]"
      by (simp add: upt_rec)
    then have "concat (map passes [k..<k + Suc n]) = it # rest @ concat (map passes [Suc k..<Suc k + n])"
      by (simp add: pk)
    with p Nil pk show ?thesis by (simp add: cycle_next_Nil cycle_next_Cons)
  qed
qed

lemma concat_batches: "concat (batches bs xs) = (if bs = 0 then [] else xs)"
proof (induction bs xs rule: batches.induct)
  case (1 bs xs)
  show ?case
  proof (cases "bs = 0 \<or> xs = []")
    case True
    then show ?thesis by (subst batches.simps) auto
  next
    case False
    with 1 show ?thesis by (subst batches.simps) simp
  qed
qed

lemma batches_nonempty: "0 < bs \<Longrightarrow> xs \<noteq> [] \<Longrightarrow> batches bs xs \<noteq> []"
  by (subst batches.simps) simp

lemma mset_map_nth_perm:
  assumes "mset perm = mset [0..<length ds]"
  shows "mset (map (\<lambda>i. ds ! i) perm) = mset ds"
proof -
  have "mset (map (\<lambda>i. ds ! i) perm) = image_mset (\<lambda>i. ds ! i) (mset perm)" by simp
  also have "\<dots> = image_mset (\<lambda>i. ds ! i) (mset [0..<length ds])" using assms by simp
  also have "\<dots> = mset (map (\<lambda>i. ds ! i) [0..<length ds])" by simp
  also have "\<dots> = mset ds" by (simp add: map_nth)
  finally show ?thesis .
qed

lemma loader_passes_nonempty:
  assumes "0 < batch_size" "dataset \<noteq> []" "\<forall>k. mset (perms k) = mset [0..<length dataset]"
  shows "loader_passes dataset batch_size perms k \<noteq> []"
proof -
  have "size (mset (perms k)) = length dataset" using assms(3) by simp
  then have "perms k \<noteq> []" using assms(2) by auto
  then show ?thesis
    using assms(1) by (simp add: loader_passes_def loader_pass_def batches_nonempty)
qed

lemma pull_example:
  "pull (loader_passes [0, 1, 2::nat] 1 (\<lambda>k. if k = 0 then [1, 2, 0] else [0, 1, 2])) 4 (0, [])
     = Some ([[1], [2], [0], [0]], 2, [[1], [2]])"
  by (simp add: eval_nat_numeral cycle_next_Nil cycle_next_Cons loader_passes_def loader_pass_def batches.simps)

text \<open>
  Claim C9, as stated, fails: with three examples, batches of one example, the
  permutation \<open>[1, 2, 0]\<close> for the first traversal and \<open>[0, 1, 2]\<close> for the second,
  the first four batches pulled are \<open>[1], [2], [0], [0]\<close>. Example 0 closes the first
  traversal and opens the second, and nothing lies between its two occurrences.
\<close>

theorem cycle_repeat_counterexample:
  "mset [1, 2, 0] = mset [0..<length [0, 1, 2::nat]] \<and>
   pull (loader_passes [0, 1, 2::nat] 1 (\<lambda>k. if k = 0 then [1, 2, 0] else [0, 1, 2])) 4 (0, [])
     = Some ([[1], [2], [0], [0]], 2, [[1], [2]]) \<and>
   \<not> repeats_separated [0, 1, 2::nat] (concat [[1], [2], [0], [0]])"
proof -
  have "[0..<length [0, 1, 2::nat]] = [0, 1, 2]" by (simp add: upt_rec)
  then have m: "mset [1, 2, 0] = mset [0..<length [0, 1, 2::nat]]" by simp
  have "\<not> repeats_separated [0, 1, 2::nat] (concat [[1], [2], [0], [0]])"
    by (simp add: repeats_separated_def occurs_between_def upt_rec)
  with m pull_example show ?thesis by blast
qed

text \<open>
  Claim C9, amended. For a dataset that is not empty, a batch size above 0 and
  permutations of the dataset's indices, any number \<open>n\<close> of pulls returns \<open>n\<close>
  batches: the first \<open>n\<close> of the batches of traversal 0, followed by those of
  traversal 1, and so on. Every traversal holds every example of the dataset as
  often as the dataset does (once, for distinct examples), and the first traversal is
  pulled whole before anything of the second. Nothing is said about what separates
  two occurrences of an example in different traversals.
\<close>

theorem cycle_stream_passes:
  assumes "0 < batch_size" "dataset \<noteq> []" "\<forall>k. mset (perms k) = mset [0..<length dataset]"
  shows "(\<exists>st'. pull (loader_passes dataset batch_size perms) n (0, []) =
            Some (take n (concat (map (loader_passes dataset batch_size perms) [0..<n])), st')) \<and>
         mset (concat (loader_passes dataset batch_size perms k)) = mset dataset \<and>
         (\<exists>st'. pull (loader_passes dataset batch_size perms)
              (length (loader_passes dataset batch_size perms 0)) (0, []) =
            Some (loader_passes dataset batch_size perms 0, st'))"
proof -
  let ?P = "loader_passes dataset batch_size perms"
  have ne: "\<And>k. ?P k \<noteq> []" by (rule loader_passes_nonempty [OF assms])
  have a: "\<exists>st'. pull ?P n (0, []) = Some (take n (concat (map ?P [0..<n])), st')" for n
    using pull_stream [of ?P n 0 "[]", OF ne] by simp
  have b: "mset (concat (?P k)) = mset dataset"
    using assms(1) mset_map_nth_perm [of "perms k" dataset] assms(3)
    by (simp add: loader_passes_def loader_pass_def concat_batches)
  have "0 < length (?P 0)" using ne [of 0] by simp
  then have "[0..<length (?P 0)] = 0 # [Suc 0..<length (?P 0)]" by (simp add: upt_rec)
  then have "take (length (?P 0)) (concat (map ?P [0..<length (?P 0)])) = ?P 0" by simp
  with a [of "length (?P 0)"] have c: "\<exists>st'. pull ?P (length (?P 0)) (0, []) = Some (?P 0, st')" by simp
  show ?thesis using a b c by blast
qed

theorem cycle_stream_passes_witness:
  "(0::nat) < 2 \<and> [0, 1, 2::nat] \<noteq> [] \<and>
   (\<forall>k. mset (if k = 0 then [1, 2, 0] else [0, 1, 2]) = mset [0..<length [0, 1, 2::nat]]) \<and>
   (\<exists>st'. pull (loader_passes [0, 1, 2::nat] 2 (\<lambda>k. if k = 0 then [1, 2, 0] else [0, 1, 2])) 3 (0, []) =
      Some (take 3 (concat (map (loader_passes [0, 1, 2::nat] 2 (\<lambda>k. if k = 0 then [1, 2, 0] else [0, 1, 2])) [0..<3])), st')) \<and>
   mset (concat (loader_passes [0, 1, 2::nat] 2 (\<lambda>k. if k = 0 then [1, 2, 0] else [0, 1, 2]) 0)) = mset [0, 1, 2::nat] \<and>
   take 3 (concat (map (loader_passes [0, 1, 2::nat] 2 (\<lambda>k. if k = 0 then [1, 2, 0] else [0, 1, 2])) [0..<3]))
     = [[1, 2], [0], [0, 1]]"
proof -
  have u: "[0..<length [0, 1, 2::nat]] = [0, 1, 2]" by (simp add: upt_rec)
  have h: "(0::nat) < 2" "[0, 1, 2::nat] \<noteq> []"
    "\<forall>k. mset ((\<lambda>k. if k = 0 then [1, 2, 0] else [0, 1, 2]) k) = mset [0..<length [0, 1, 2::nat]]"
    unfolding u by simp_all
  have v: "take 3 (concat (map (loader_passes [0, 1, 2::nat] 2 (\<lambda>k. if k = 0 then [1, 2, 0] else [0, 1, 2])) [0..<3]))
     = [[1, 2], [0], [0, 1]]"
    by (simp add: upt_rec loader_passes_def loader_pass_def batches.simps eval_nat_numeral)
  show ?thesis
    using cycle_stream_passes [OF h, of 3 0] h v by simp
qed

section \<open>Properties of the task sampling probabilities\<close>







section \<open>Properties of the alpha schedule\<close>

lemmas rd_eval = round_to_double_def ilog2_def bitlen_nat.simps pow2_def round_half_even_def Let_def

lemmas f_eval = fl_def fsub_def fadd_def fmul_def fquot_def fdiv_def float_of_int_def fmul_int_def fdiv_int_def
  int_truediv_def fpow_def

lemma fl_lits:
  "fl 0 = Fin 0" "fl 1 = Fin 1"
  "fl (1 / 5) = Fin (3602879701896397 / 18014398509481984)"
  "fl (3 / 5) = Fin (5404319552844595 / 9007199254740992)"
  by (simp_all add: fl_def rd_eval)

lemma drop_default:
  "fsub (Fin 1) (Fin (3602879701896397 / 18014398509481984)) = Fin (3602879701896397 / 4503599627370496)"
  by (simp add: f_eval rd_eval)

lemma alpha_linear_0_5:
  "compute_alpha (binary64 rest) 0 5 (Fin 1) (Fin (3602879701896397 / 18014398509481984)) True = Inr (Fin 1)"
  by (simp add: compute_alpha_def binary64_def drop_default) (simp add: f_eval rd_eval)

lemma alpha_linear_2_5:
  "compute_alpha (binary64 rest) 2 5 (Fin 1) (Fin (3602879701896397 / 18014398509481984)) True
     = Inr (Fin (5404319552844595 / 9007199254740992))"
  by (simp add: compute_alpha_def binary64_def drop_default) (simp add: f_eval rd_eval)

lemma alpha_linear_4_5:
  "compute_alpha (binary64 rest) 4 5 (Fin 1) (Fin (3602879701896397 / 18014398509481984)) True
     = Inr (Fin (900719925474099 / 4503599627370496))"
  by (simp add: compute_alpha_def binary64_def drop_default) (simp add: f_eval rd_eval)

lemma pow2_powi: "pow2 e = 2 powi e"
  by (simp add: pow2_def power_int_def inverse_eq_divide power_one_over)

lemma bitlen_nat_bounds: "0 < n \<Longrightarrow> 2 ^ (bitlen_nat n - 1) \<le> n \<and> n < 2 ^ bitlen_nat n"
proof (induction n rule: bitlen_nat.induct)
  case (1 n)
  show ?case
  proof (cases "n div 2 = 0")
    case True
    with 1 have "n = 1" by (cases n) auto
    then show ?thesis by (simp add: bitlen_nat.simps)
  next
    case False
    then have ih: "2 ^ (bitlen_nat (n div 2) - 1) \<le> n div 2" "n div 2 < 2 ^ bitlen_nat (n div 2)"
      using 1 by auto
    have b: "bitlen_nat n = Suc (bitlen_nat (n div 2))"
      using 1(2) by (subst bitlen_nat.simps) simp
    have p: "0 < bitlen_nat (n div 2)"
      using False by (subst bitlen_nat.simps) simp
    then obtain k where k: "bitlen_nat (n div 2) = Suc k" by (cases "bitlen_nat (n div 2)") auto
    from ih k have "2 * 2 ^ k \<le> n" "n < 2 * 2 ^ Suc k" by auto
    then show ?thesis by (simp add: b k)
  qed
qed

lemma round_half_even_le: "y \<le> of_int b \<Longrightarrow> round_half_even y \<le> b"
  unfolding round_half_even_def Let_def by (auto simp: floor_le_iff)

lemma round_half_even_ge:
  assumes "of_int a \<le> y"
  shows "a \<le> round_half_even y"
proof -
  have "a \<le> \<lfloor>y\<rfloor>" using assms by (simp add: le_floor_iff)
  then show ?thesis unfolding round_half_even_def Let_def by auto
qed

lemma pow2_add: "pow2 (a + b) = pow2 a * pow2 b"
  by (simp add: pow2_powi power_int_add)

lemma pow2_pos: "0 < pow2 e"
  by (simp add: pow2_powi zero_less_power_int)

lemma pow2_mono: "a \<le> b \<Longrightarrow> pow2 a \<le> pow2 b"
  by (simp add: pow2_powi power_int_increasing)

lemma pow2_nat: "pow2 (int n) = 2 ^ n"
  by (simp add: pow2_def)

lemma ilog2_ge_1:
  assumes "1 \<le> x"
  shows "0 \<le> ilog2 x \<and> pow2 (ilog2 x) \<le> x \<and> x < pow2 (ilog2 x + 1)"
proof -
  let ?n = "nat \<lfloor>x\<rfloor>"
  have n: "0 < ?n" using assms by simp
  have nx: "real ?n \<le> x" "x < real ?n + 1" using assms by linarith+
  from bitlen_nat_bounds [OF n] have b: "2 ^ (bitlen_nat ?n - 1) \<le> ?n" "?n < 2 ^ bitlen_nat ?n"
    by simp_all
  have p: "0 < bitlen_nat ?n" using n by (subst bitlen_nat.simps) simp
  then obtain k where k: "bitlen_nat ?n = Suc k" by (cases "bitlen_nat ?n") auto
  have e: "ilog2 x = int k" using assms by (simp add: ilog2_def k)
  have l: "(2::real) ^ k \<le> real ?n" using b(1) k by (metis diff_Suc_1 of_nat_le_iff of_nat_numeral of_nat_power)
  have u: "real ?n + 1 \<le> 2 ^ Suc k"
  proof -
    have "Suc ?n \<le> 2 ^ Suc k" using b(2) k by simp
    then have "real (Suc ?n) \<le> real (2 ^ Suc k)" by (rule iffD2 [OF of_nat_le_iff])
    then show ?thesis by simp
  qed
  have p1: "pow2 (ilog2 x + 1) = 2 ^ Suc k"
    using pow2_nat [of "Suc k"] by (simp add: e add.commute)
  have "0 \<le> ilog2 x" by (simp add: e)
  moreover have "pow2 (ilog2 x) \<le> x" unfolding e pow2_nat using l nx(1) by linarith
  moreover have "x < pow2 (ilog2 x + 1)" unfolding p1 using u nx(2) by linarith
  ultimately show ?thesis by blast
qed

lemma ilog2_lt_1:
  assumes "0 < x" "x < 1"
  shows "ilog2 x \<le> - 1 \<and> x < pow2 (ilog2 x + 1)"
proof -
  let ?c = "nat (\<lceil>1 / x\<rceil> - 1)"
  have ix: "1 < 1 / x" using assms by simp
  then have c2: "2 \<le> \<lceil>1 / x\<rceil>" by linarith
  then have c: "0 < ?c" by simp
  have cx: "real ?c < 1 / x" using c2 by linarith
  from bitlen_nat_bounds [OF c] have b: "2 ^ (bitlen_nat ?c - 1) \<le> ?c" by simp
  have p: "0 < bitlen_nat ?c" using c by (subst bitlen_nat.simps) simp
  then obtain k where k: "bitlen_nat ?c = Suc k" by (cases "bitlen_nat ?c") auto
  have e: "ilog2 x = - int (Suc k)" using assms by (simp add: ilog2_def k)
  have "(2::real) ^ k \<le> real ?c" using b k by (metis diff_Suc_1 of_nat_le_iff of_nat_numeral of_nat_power)
  then have "2 ^ k < 1 / x" using cx by linarith
  then have "x * 2 ^ k < 1" using assms(1) by (simp add: field_simps)
  then have "x < 1 / 2 ^ k" by (simp add: field_simps)
  moreover have "pow2 (ilog2 x + 1) = 1 / 2 ^ k" by (simp add: e pow2_def)
  ultimately show ?thesis by (simp add: e)
qed

lemma ilog2_upper: "0 < x \<Longrightarrow> x < pow2 (ilog2 x + 1)"
  using ilog2_ge_1 [of x] ilog2_lt_1 [of x] by (cases "1 \<le> x") auto

lemma pow2_53: "pow2 53 = 9007199254740992"
  by (simp add: pow2_def)

lemma pow2_52: "pow2 52 = 4503599627370496"
  by (simp add: pow2_def)

lemma pow2_split53: "pow2 (e + 1) = pow2 (e - 52) * 9007199254740992"
proof -
  have "pow2 (e + 1) = pow2 ((e - 52) + 53)" by (rule arg_cong [where f = pow2]) simp
  also have "\<dots> = pow2 (e - 52) * pow2 53" by (rule pow2_add)
  finally show ?thesis by (simp only: pow2_53)
qed

lemma pow2_split52: "pow2 e = pow2 (e - 52) * 4503599627370496"
proof -
  have "pow2 e = pow2 ((e - 52) + 52)" by (rule arg_cong [where f = pow2]) simp
  also have "\<dots> = pow2 (e - 52) * pow2 52" by (rule pow2_add)
  finally show ?thesis by (simp only: pow2_52)
qed

lemma round_to_double_pos:
  assumes "0 < x"
  shows "round_to_double x =
    of_int (round_half_even (x / pow2 (max (ilog2 x) (- 1022) - 52))) * pow2 (max (ilog2 x) (- 1022) - 52)"
  using assms by (simp add: round_to_double_def Let_def)

lemma round_to_double_upper:
  assumes "0 < x"
  shows "0 \<le> round_to_double x \<and> round_to_double x \<le> pow2 (max (ilog2 x) (- 1022) + 1)"
proof -
  define q where "q = max (ilog2 x) (- 1022) - 52"
  define m where "m = round_half_even (x / pow2 q)"
  have s: "pow2 (max (ilog2 x) (- 1022) + 1) = pow2 q * 9007199254740992"
    unfolding q_def by (rule pow2_split53)
  have r: "round_to_double x = of_int m * pow2 q"
    unfolding m_def q_def by (rule round_to_double_pos [OF assms])
  have pq: "0 < pow2 q" by (rule pow2_pos)
  have "x < pow2 (ilog2 x + 1)" by (rule ilog2_upper [OF assms])
  also have "\<dots> \<le> pow2 (max (ilog2 x) (- 1022) + 1)" by (rule pow2_mono) simp
  finally have "x \<le> pow2 q * 9007199254740992" by (simp add: s)
  then have "x / pow2 q \<le> 9007199254740992" using pq by (simp add: field_simps)
  then have "x / pow2 q \<le> of_int 9007199254740992" by simp
  then have m: "m \<le> 9007199254740992" unfolding m_def by (rule round_half_even_le)
  have "of_int 0 \<le> x / pow2 q" using assms pq by simp
  then have m0: "0 \<le> m" unfolding m_def by (rule round_half_even_ge)
  have "real_of_int m \<le> 9007199254740992" using m by linarith
  then have "real_of_int m * pow2 q \<le> 9007199254740992 * pow2 q"
    using pq by (intro mult_right_mono) simp_all
  moreover have "0 \<le> real_of_int m * pow2 q" using m0 pq by simp
  ultimately show ?thesis unfolding r s by (simp add: mult.commute)
qed

lemma round_to_double_lower:
  assumes "1 \<le> x"
  shows "1 \<le> round_to_double x"
proof -
  have x: "0 < x" using assms by simp
  have e: "0 \<le> ilog2 x" "pow2 (ilog2 x) \<le> x" using ilog2_ge_1 [OF assms] by simp_all
  then have mx: "max (ilog2 x) (- 1022) = ilog2 x" by simp
  define q where "q = ilog2 x - 52"
  define m where "m = round_half_even (x / pow2 q)"
  have s: "pow2 (ilog2 x) = pow2 q * 4503599627370496"
    unfolding q_def by (rule pow2_split52)
  have r: "round_to_double x = of_int m * pow2 q"
    unfolding m_def q_def using round_to_double_pos [OF x] by (simp only: mx)
  have pq: "0 < pow2 q" by (rule pow2_pos)
  have "pow2 q * 4503599627370496 \<le> x" using e(2) by (simp add: s)
  then have "4503599627370496 \<le> x / pow2 q" using pq by (simp add: field_simps)
  then have "of_int 4503599627370496 \<le> x / pow2 q" by simp
  then have "4503599627370496 \<le> m" unfolding m_def by (rule round_half_even_ge)
  then have "4503599627370496 \<le> real_of_int m" by linarith
  then have "4503599627370496 * pow2 q \<le> real_of_int m * pow2 q"
    using pq by (intro mult_right_mono) simp_all
  then have "pow2 (ilog2 x) \<le> round_to_double x" unfolding r s by (simp add: mult.commute)
  moreover have "1 \<le> pow2 (ilog2 x)" using pow2_mono [OF e(1)] by (simp add: pow2_def)
  ultimately show ?thesis by linarith
qed

lemma fl_0: "fl 0 = Fin 0"
  by (simp add: fl_def round_to_double_def)

lemma float_of_int_pos:
  assumes "1 \<le> n" "n < 2 ^ 1023"
  shows "\<exists>r. float_of_int n = Inr (Fin r) \<and> 1 \<le> r"
proof -
  let ?x = "real_of_int n"
  have x1: "1 \<le> ?x" using assms(1) by simp
  have x: "0 < ?x" using assms(1) by simp
  have xu: "?x < pow2 1023"
  proof -
    have "?x < real_of_int (2 ^ 1023)" using assms(2) by (rule iffD2 [OF of_int_less_iff])
    then show ?thesis using pow2_nat [of 1023] by simp
  qed
  have e: "0 \<le> ilog2 ?x" "pow2 (ilog2 ?x) \<le> ?x" using ilog2_ge_1 [OF x1] by simp_all
  have "ilog2 ?x < 1023"
  proof (rule ccontr)
    assume "\<not> ilog2 ?x < 1023"
    then have "pow2 1023 \<le> pow2 (ilog2 ?x)" by (intro pow2_mono) simp
    with e(2) xu show False by linarith
  qed
  then have "max (ilog2 ?x) (- 1022) + 1 \<le> 1023" by simp
  then have "pow2 (max (ilog2 ?x) (- 1022) + 1) \<le> pow2 1023" by (rule pow2_mono)
  then have u: "round_to_double ?x \<le> pow2 1023" using round_to_double_upper [OF x] by linarith
  have l: "1 \<le> round_to_double ?x" by (rule round_to_double_lower [OF x1])
  have "pow2 1023 < 2 ^ 1024" using pow2_nat [of 1023] by simp
  then have "round_to_double ?x < 2 ^ 1024" using u by linarith
  moreover have "\<not> round_to_double ?x \<le> - (2 ^ 1024)" using l by simp
  ultimately have "fl ?x = Fin (round_to_double ?x)" by (simp add: fl_def Let_def)
  then show ?thesis using l by (simp add: float_of_int_def)
qed

lemma float_of_int_nonneg:
  assumes "0 \<le> n" "n < 2 ^ 1023"
  shows "\<exists>r. float_of_int n = Inr (Fin r)"
proof (cases "n = 0")
  case True
  then show ?thesis by (simp add: float_of_int_def fl_0)
next
  case False
  then have "1 \<le> n" using assms(1) by simp
  then show ?thesis using float_of_int_pos [OF _ assms(2)] by blast
qed

lemma int_truediv_ratio:
  assumes "0 \<le> a" "a < b"
  shows "\<exists>r. int_truediv a b = Inr (Fin r)"
proof (cases "a = 0")
  case True
  then show ?thesis using assms(2) by (simp add: int_truediv_def fl_0)
next
  case False
  let ?x = "real_of_int a / real_of_int b"
  have x: "0 < ?x" "?x < 1" using assms False by simp_all
  have "ilog2 ?x \<le> - 1" using ilog2_lt_1 [OF x] by simp
  then have "max (ilog2 ?x) (- 1022) + 1 \<le> 0" by simp
  then have "pow2 (max (ilog2 ?x) (- 1022) + 1) \<le> pow2 0" by (rule pow2_mono)
  then have u: "round_to_double ?x \<le> 1" "0 \<le> round_to_double ?x"
    using round_to_double_upper [OF x(1)] by (simp_all add: pow2_def)
  then have "fl ?x = Fin (round_to_double ?x)" by (simp add: fl_def Let_def)
  then show ?thesis using assms by (simp add: int_truediv_def)
qed

lemma int_truediv_self: "1 \<le> n \<Longrightarrow> int_truediv n n = Inr (Fin 1)"
  by (simp add: int_truediv_def fl_lits)

lemma int_truediv_zero: "b \<noteq> 0 \<Longrightarrow> int_truediv 0 b = Inr (Fin 0)"
  by (simp add: int_truediv_def fl_0)

lemma float_of_int_0: "float_of_int 0 = Inr (Fin 0)"
  by (simp add: float_of_int_def fl_0)

lemma fsub_zero: "fl x = Fin x \<Longrightarrow> fsub (Fin x) (Fin 0) = Fin x"
  by (simp add: fsub_def fadd_def)

lemma fmul_one: "fl x = Fin x \<Longrightarrow> fmul (Fin x) (Fin 1) = Fin x"
  by (simp add: fmul_def)

lemma fmul_zero: "fmul (Fin d) (Fin 0) = Fin 0"
  by (simp add: fmul_def fl_0)

lemma fquot_zero: "fquot (Fin 0) (Fin r) = Fin 0"
  by (simp add: fquot_def fl_0)

lemma alpha_exact_linear:
  assumes "0 \<le> e" "e < T" "1 < T"
  shows "compute_alpha (exact rest) e T a b True = Inr (a - (a - b) * of_int e / of_int (T - 1))"
  using assms by (simp add: compute_alpha_def exact_def)

lemma alpha_exact_linear_ends:
  assumes "1 < T"
  shows "compute_alpha (exact rest) 0 T a b True = Inr a"
    and "compute_alpha (exact rest) (T - 1) T a b True = Inr b"
proof -
  show "compute_alpha (exact rest) 0 T a b True = Inr a"
    using assms by (simp add: compute_alpha_def exact_def)
  have "real_of_int (T - 1) \<noteq> 0" using assms by simp
  then have "(a - b) * real_of_int (T - 1) / real_of_int (T - 1) = a - b" by simp
  then show "compute_alpha (exact rest) (T - 1) T a b True = Inr b"
    using assms alpha_exact_linear [of "T - 1" T rest a b] by simp
qed

lemma alpha_exact_exp_ends:
  assumes "1 < T"
  shows "a \<noteq> 0 \<Longrightarrow> compute_alpha (exact rest) 0 T a b False = Inr a"
    and "0 < a \<Longrightarrow> 0 < b \<Longrightarrow> compute_alpha (exact rest) (T - 1) T a b False = Inr b"
  using assms by (simp_all add: compute_alpha_def exact_def)

lemma alpha_binary64_linear_start:
  assumes "1 < T" "T \<le> 2 ^ 1023" "fl x = Fin x" "fsub (Fin x) (Fin y) = Fin d"
  shows "compute_alpha (binary64 frest) 0 T (Fin x) (Fin y) True = Inr (Fin x)"
proof -
  obtain r where r: "float_of_int (T - 1) = Inr (Fin r)" "1 \<le> r"
    using float_of_int_pos [of "T - 1"] assms(1,2) by auto
  then have "r \<noteq> 0" by simp
  then have "fdiv_int (Fin 0) (T - 1) = Inr (Fin 0)"
    by (simp add: fdiv_int_def r fdiv_def fquot_zero)
  then show ?thesis
    using assms(1)
    by (simp add: compute_alpha_def binary64_def assms(4) fmul_int_def float_of_int_0 fmul_zero
        fsub_zero [OF assms(3)])
qed

lemma alpha_binary64_exp_start:
  assumes "1 < T" "fl x = Fin x" "x \<noteq> 0"
  shows "compute_alpha (binary64 frest) 0 T (Fin x) b False = Inr (Fin x)"
  using assms
  by (simp add: compute_alpha_def binary64_def int_truediv_zero fdiv_def fpow_def fmul_one)

text \<open>
  Claim C1, as stated, fails in the arithmetic of the code. With the defaults
  \<open>alpha_start = 1.0\<close> and \<open>alpha_end = 0.2\<close>, the call for epoch 4 of 5 computes
  \<open>drop = 1.0 - 0.2\<close>, which rounds to the float 0.8, then \<open>0.8 * 4 / 4\<close>, which is
  that float again, and \<open>1.0 - 0.8\<close>, which is 0.19999999999999996 (the rational
  \<open>900719925474099 / 2^52\<close>) and not the float 0.2 (the rational
  \<open>3602879701896397 / 2^54\<close>).
\<close>

theorem alpha_end_point_counterexample:
  "compute_alpha (binary64 (\<lambda>x y. Inr x)) 4 5 (fl 1) (fl (1 / 5)) True
     = Inr (Fin (900719925474099 / 4503599627370496)) \<and>
   fl (1 / 5) = Fin (3602879701896397 / 18014398509481984) \<and>
   compute_alpha (binary64 (\<lambda>x y. Inr x)) 4 5 (fl 1) (fl (1 / 5)) True \<noteq> Inr (fl (1 / 5))"
  by (simp add: fl_lits alpha_linear_4_5)

text \<open>
  Claim C1, amended. In exact arithmetic the linear mode is the linear interpolation
  \<open>alpha_start - (alpha_start - alpha_end) * epoch / (total_epochs - 1)\<close>, and for
  every \<open>total_epochs > 1\<close> it is \<open>alpha_start\<close> at epoch 0 and \<open>alpha_end\<close> at epoch
  \<open>total_epochs - 1\<close>; so is the exponential mode (at epoch 0 for \<open>alpha_start\<close> other
  than 0, at the last epoch for positive \<open>alpha_start\<close> and \<open>alpha_end\<close>). In the
  binary64 arithmetic of the code, with the defaults 1.0 and 0.2 and 5 epochs, the
  linear mode gives 1.0 at epoch 0, the float 0.6 at epoch 2 and 0.19999999999999996
  at epoch 4. For every \<open>total_epochs > 1\<close> the value at epoch 0 is \<open>alpha_start\<close>
  itself: in linear mode when \<open>total_epochs\<close> is at most \<open>2^1023\<close> and
  \<open>alpha_start - alpha_end\<close> is finite, in exponential mode when \<open>alpha_start\<close> is not
  zero. Nothing is said about the last epoch in binary64 beyond the instance above.
\<close>

theorem alpha_end_points:
  "(0 \<le> e \<and> e < T \<and> 1 < T \<longrightarrow>
      compute_alpha (exact rest) e T a b True = Inr (a - (a - b) * of_int e / of_int (T - 1))) \<and>
   (1 < T \<longrightarrow>
      compute_alpha (exact rest) 0 T a b True = Inr a \<and>
      compute_alpha (exact rest) (T - 1) T a b True = Inr b) \<and>
   (1 < T \<and> a \<noteq> 0 \<longrightarrow> compute_alpha (exact rest) 0 T a b False = Inr a) \<and>
   (1 < T \<and> 0 < a \<and> 0 < b \<longrightarrow> compute_alpha (exact rest) (T - 1) T a b False = Inr b) \<and>
   compute_alpha (binary64 frest) 0 5 (fl 1) (fl (1 / 5)) True = Inr (fl 1) \<and>
   compute_alpha (binary64 frest) 2 5 (fl 1) (fl (1 / 5)) True = Inr (fl (3 / 5)) \<and>
   compute_alpha (binary64 frest) 4 5 (fl 1) (fl (1 / 5)) True
     = Inr (Fin (900719925474099 / 4503599627370496)) \<and>
   (1 < T \<and> T \<le> 2 ^ 1023 \<and> fl x = Fin x \<and> fsub (Fin x) (Fin y) = Fin d \<longrightarrow>
      compute_alpha (binary64 frest) 0 T (Fin x) (Fin y) True = Inr (Fin x)) \<and>
   (1 < T \<and> fl x = Fin x \<and> x \<noteq> 0 \<longrightarrow>
      compute_alpha (binary64 frest) 0 T (Fin x) fb False = Inr (Fin x))"
proof (intro conjI impI)
  assume "0 \<le> e \<and> e < T \<and> 1 < T"
  then show "compute_alpha (exact rest) e T a b True = Inr (a - (a - b) * of_int e / of_int (T - 1))"
    by (intro alpha_exact_linear) simp_all
next
  assume "1 < T"
  then show "compute_alpha (exact rest) 0 T a b True = Inr a"
    and "compute_alpha (exact rest) (T - 1) T a b True = Inr b"
    by (rule alpha_exact_linear_ends)+
next
  assume "1 < T \<and> a \<noteq> 0"
  then show "compute_alpha (exact rest) 0 T a b False = Inr a"
    by (intro alpha_exact_exp_ends) simp_all
next
  assume "1 < T \<and> 0 < a \<and> 0 < b"
  then show "compute_alpha (exact rest) (T - 1) T a b False = Inr b"
    by (intro alpha_exact_exp_ends) simp_all
next
  show "compute_alpha (binary64 frest) 0 5 (fl 1) (fl (1 / 5)) True = Inr (fl 1)"
    by (simp add: fl_lits alpha_linear_0_5)
next
  show "compute_alpha (binary64 frest) 2 5 (fl 1) (fl (1 / 5)) True = Inr (fl (3 / 5))"
    by (simp add: fl_lits alpha_linear_2_5)
next
  show "compute_alpha (binary64 frest) 4 5 (fl 1) (fl (1 / 5)) True
     = Inr (Fin (900719925474099 / 4503599627370496))"
    by (simp add: fl_lits alpha_linear_4_5)
next
  assume "1 < T \<and> T \<le> 2 ^ 1023 \<and> fl x = Fin x \<and> fsub (Fin x) (Fin y) = Fin d"
  then show "compute_alpha (binary64 frest) 0 T (Fin x) (Fin y) True = Inr (Fin x)"
    using alpha_binary64_linear_start [of T x y d frest] by blast
next
  assume "1 < T \<and> fl x = Fin x \<and> x \<noteq> 0"
  then show "compute_alpha (binary64 frest) 0 T (Fin x) fb False = Inr (Fin x)"
    using alpha_binary64_exp_start [of T x frest fb] by blast
qed

theorem alpha_end_points_witness:
  "(0::int) \<le> 2 \<and> (2::int) < 5 \<and> (1::int) < 5 \<and> (5::int) \<le> 2 ^ 1023 \<and>
   (1::real) \<noteq> 0 \<and> (0::real) < 1 \<and> (0::real) < 1 / 5 \<and>
   fl 1 = Fin 1 \<and>
   fsub (Fin 1) (Fin (3602879701896397 / 18014398509481984)) = Fin (3602879701896397 / 4503599627370496) \<and>
   compute_alpha (exact (\<lambda>x y. Inr x)) 2 5 1 (1 / 5) True = Inr (3 / 5) \<and>
   compute_alpha (exact (\<lambda>x y. Inr x)) 0 5 1 (1 / 5) True = Inr 1 \<and>
   compute_alpha (exact (\<lambda>x y. Inr x)) (5 - 1) 5 1 (1 / 5) True = Inr (1 / 5) \<and>
   compute_alpha (exact (\<lambda>x y. Inr x)) 0 5 1 (1 / 5) False = Inr 1 \<and>
   compute_alpha (exact (\<lambda>x y. Inr x)) (5 - 1) 5 1 (1 / 5) False = Inr (1 / 5) \<and>
   compute_alpha (binary64 (\<lambda>x y. Inr x)) 0 5 (Fin 1) (Fin (3602879701896397 / 18014398509481984)) True
     = Inr (Fin 1) \<and>
   compute_alpha (binary64 (\<lambda>x y. Inr x)) 0 5 (Fin 1) (Fin (3602879701896397 / 18014398509481984)) False
     = Inr (Fin 1)"
proof -
  have h: "(0::int) \<le> 2" "(2::int) < 5" "(1::int) < 5" "(5::int) \<le> 2 ^ 1023"
    "(1::real) \<noteq> 0" "(0::real) < 1" "(0::real) < 1 / 5"
    by simp_all
  have f: "fl 1 = Fin 1" by (rule fl_lits)
  note t = alpha_end_points [of 2 5 "\<lambda>x y. Inr x" 1 "1 / 5" "\<lambda>x y. Inr x" 1
      "3602879701896397 / 18014398509481984" "3602879701896397 / 4503599627370496"
      "Fin (3602879701896397 / 18014398509481984)"]
  show ?thesis
    using t h f drop_default by simp
qed

text \<open>
  Claim C7, as stated, fails: the call with \<open>total_epochs = 1\<close> and \<open>epoch = 0\<close>
  violates the precondition, passes the assertion \<^verbatim>\<open>0 <= epoch < total_epoch\<close> and
  fails in the division by \<open>total_epoch - 1\<close> with a ZeroDivisionError, not with the
  assertion's error.
\<close>

theorem alpha_precondition_counterexample:
  "compute_alpha (binary64 (\<lambda>x y. Inr x)) 0 1 (fl 1) (fl (1 / 5)) True = Inl ZeroDivisionError \<and>
   compute_alpha (binary64 (\<lambda>x y. Inr x)) 0 1 (fl 1) (fl (1 / 5)) True \<noteq> Inl AssertionError"
  by (simp add: compute_alpha_def binary64_def fmul_int_def fdiv_int_def float_of_int_0 fdiv_def)

lemma alpha_assertion:
  "\<not> (0 \<le> epoch \<and> epoch < T) \<Longrightarrow> compute_alpha ar epoch T a b lin = Inl AssertionError"
  by (simp add: compute_alpha_def)

lemma alpha_binary64_one_epoch:
  "compute_alpha (binary64 frest) 0 1 a b lin = Inl ZeroDivisionError"
  by (simp add: compute_alpha_def binary64_def fmul_int_def fdiv_int_def float_of_int_0 fdiv_def
      int_truediv_def)

lemma alpha_binary64_linear_defined:
  assumes "0 \<le> epoch" "epoch < T" "1 < T" "T \<le> 2 ^ 1023"
  shows "\<exists>v. compute_alpha (binary64 frest) epoch T a b True = Inr v"
proof -
  obtain r where r: "float_of_int (T - 1) = Inr (Fin r)" "1 \<le> r"
    using float_of_int_pos [of "T - 1"] assms(3,4) by auto
  obtain s where s: "float_of_int epoch = Inr (Fin s)"
    using float_of_int_nonneg [of epoch] assms(1,2,4) by auto
  have "Fin r \<noteq> Fin 0" using r(2) by simp
  then show ?thesis
    using assms(1,2)
    by (simp add: compute_alpha_def binary64_def fmul_int_def fdiv_int_def r s fdiv_def)
qed

lemma alpha_binary64_exp_defined:
  assumes "0 \<le> epoch" "epoch < T" "1 < T" "a \<noteq> Fin 0" "\<forall>x y. \<exists>p. frest x y = Inr p"
  shows "\<exists>v. compute_alpha (binary64 frest) epoch T a b False = Inr v"
proof -
  have "\<exists>r. int_truediv epoch (T - 1) = Inr (Fin r)"
  proof (cases "epoch = T - 1")
    case True
    then show ?thesis using int_truediv_self [of "T - 1"] assms(3) by simp
  next
    case False
    then have "epoch < T - 1" using assms(2) by simp
    then show ?thesis by (rule int_truediv_ratio [OF assms(1)])
  qed
  then obtain r where r: "int_truediv epoch (T - 1) = Inr (Fin r)" by blast
  have "\<exists>p. fpow frest (fquot b a) (Fin r) = Inr p"
    using assms(5) by (cases "r = 0") (simp_all add: fpow_def)
  then obtain p where p: "fpow frest (fquot b a) (Fin r) = Inr p" by blast
  show ?thesis
    using assms(1,2,4) by (simp add: compute_alpha_def binary64_def r fdiv_def p)
qed

lemma alpha_binary64_exp_zero_start:
  assumes "0 \<le> epoch" "epoch < T" "1 < T"
  shows "compute_alpha (binary64 frest) epoch T (Fin 0) b False = Inl ZeroDivisionError"
proof -
  have "\<exists>r. int_truediv epoch (T - 1) = Inr (Fin r)"
  proof (cases "epoch = T - 1")
    case True
    then show ?thesis using int_truediv_self [of "T - 1"] assms(3) by simp
  next
    case False
    then have "epoch < T - 1" using assms(2) by simp
    then show ?thesis by (rule int_truediv_ratio [OF assms(1)])
  qed
  then obtain r where r: "int_truediv epoch (T - 1) = Inr (Fin r)" by blast
  show ?thesis
    using assms(1,2) by (simp add: compute_alpha_def binary64_def r fdiv_def)
qed

text \<open>
  Claim C7, amended. Every call that violates the precondition (\<open>total_epochs \<le> 1\<close>,
  or \<open>epoch < 0\<close>, or \<open>epoch \<ge> total_epochs\<close>) fails: with a ZeroDivisionError when
  \<open>total_epochs = 1\<close> and \<open>epoch = 0\<close>, with an AssertionError in every other case.
  Under the precondition the linear mode returns a float for every \<open>alpha_start\<close> and
  \<open>alpha_end\<close>, as long as \<open>total_epochs\<close> is at most \<open>2^1023\<close> (beyond that the
  conversion of an int to a float overflows). The exponential mode returns a float
  when \<open>alpha_start\<close> is not zero and the power returns one, and fails with a
  ZeroDivisionError when \<open>alpha_start\<close> is zero.
\<close>

theorem alpha_precondition:
  "(T \<le> 1 \<or> epoch < 0 \<or> T \<le> epoch \<longrightarrow>
      compute_alpha (binary64 frest) epoch T a b lin =
        Inl (if T = 1 \<and> epoch = 0 then ZeroDivisionError else AssertionError)) \<and>
   (0 \<le> epoch \<and> epoch < T \<and> 1 < T \<and> T \<le> 2 ^ 1023 \<longrightarrow>
      (\<exists>v. compute_alpha (binary64 frest) epoch T a b True = Inr v)) \<and>
   (0 \<le> epoch \<and> epoch < T \<and> 1 < T \<and> a \<noteq> Fin 0 \<and> (\<forall>x y. \<exists>p. frest x y = Inr p) \<longrightarrow>
      (\<exists>v. compute_alpha (binary64 frest) epoch T a b False = Inr v)) \<and>
   (0 \<le> epoch \<and> epoch < T \<and> 1 < T \<longrightarrow>
      compute_alpha (binary64 frest) epoch T (Fin 0) b False = Inl ZeroDivisionError)"
proof (intro conjI impI)
  assume v: "T \<le> 1 \<or> epoch < 0 \<or> T \<le> epoch"
  show "compute_alpha (binary64 frest) epoch T a b lin =
        Inl (if T = 1 \<and> epoch = 0 then ZeroDivisionError else AssertionError)"
  proof (cases "T = 1 \<and> epoch = 0")
    case True
    then show ?thesis by (simp add: alpha_binary64_one_epoch)
  next
    case False
    with v have "\<not> (0 \<le> epoch \<and> epoch < T)" by auto
    then show ?thesis using False by (simp add: alpha_assertion)
  qed
next
  assume "0 \<le> epoch \<and> epoch < T \<and> 1 < T \<and> T \<le> 2 ^ 1023"
  then show "\<exists>v. compute_alpha (binary64 frest) epoch T a b True = Inr v"
    by (intro alpha_binary64_linear_defined) simp_all
next
  assume "0 \<le> epoch \<and> epoch < T \<and> 1 < T \<and> a \<noteq> Fin 0 \<and> (\<forall>x y. \<exists>p. frest x y = Inr p)"
  then show "\<exists>v. compute_alpha (binary64 frest) epoch T a b False = Inr v"
    by (intro alpha_binary64_exp_defined) simp_all
next
  assume "0 \<le> epoch \<and> epoch < T \<and> 1 < T"
  then show "compute_alpha (binary64 frest) epoch T (Fin 0) b False = Inl ZeroDivisionError"
    by (intro alpha_binary64_exp_zero_start) simp_all
qed

theorem alpha_precondition_witness:
  "(3::int) \<le> 3 \<and>
   compute_alpha (binary64 (\<lambda>x y. Inr x)) 3 3 (fl 1) (fl (1 / 5)) True = Inl AssertionError \<and>
   (0::int) \<le> 3 \<and> (3::int) < 5 \<and> (1::int) < 5 \<and> (5::int) \<le> 2 ^ 1023 \<and>
   fl 1 \<noteq> Fin 0 \<and> (\<forall>x y. \<exists>p. (\<lambda>x y. Inr x) x y = (Inr p :: py_error + pyfloat)) \<and>
   (\<exists>v. compute_alpha (binary64 (\<lambda>x y. Inr x)) 3 5 (fl 1) (fl (1 / 5)) True = Inr v) \<and>
   (\<exists>v. compute_alpha (binary64 (\<lambda>x y. Inr x)) 3 5 (fl 1) (fl (1 / 5)) False = Inr v) \<and>
   compute_alpha (binary64 (\<lambda>x y. Inr x)) 3 5 (Fin 0) (fl (1 / 5)) False = Inl ZeroDivisionError"
proof -
  have g: "(3::int) \<le> 1 \<or> (3::int) < 0 \<or> (3::int) \<le> 3" by simp
  have h: "(0::int) \<le> 3" "(3::int) < 5" "(1::int) < 5" "(5::int) \<le> 2 ^ 1023" by simp_all
  have f: "fl 1 \<noteq> Fin 0" by (simp add: fl_lits)
  have p: "\<forall>x y. \<exists>p. (\<lambda>x y. Inr x) x y = (Inr p :: py_error + pyfloat)" by simp
  show ?thesis
    using alpha_precondition [of 3 3 "\<lambda>x y. Inr x" "fl 1" "fl (1 / 5)" True]
      alpha_precondition [of 5 3 "\<lambda>x y. Inr x" "fl 1" "fl (1 / 5)" True]
      g h f p
    by simp
qed

subsection \<open>The examples of the sampling probabilities in binary64\<close>

text \<open>
  The two examples of \<^verbatim>\<open>get_task_probs\<close> for the sizes 100, 300 and 600 also hold
  in the arithmetic of the code. For \<open>alpha = 1.0\<close> the powers are the sizes, their sum
  is 1000.0 and the quotients are the floats 0.1, 0.3 and 0.6; for \<open>alpha = 0.0\<close> the
  powers are 1.0, their sum is 3.0 and each quotient is the float of 1/3. Both results
  add up to 1.0, from left to right.
\<close>

lemma task_probs_binary64_examples:
  "fadd (fadd (Fin 100) (Fin 300)) (Fin 600) = Fin 1000 \<and>
   fquot (Fin 100) (Fin 1000) = fl (1 / 10) \<and>
   fquot (Fin 300) (Fin 1000) = fl (3 / 10) \<and>
   fquot (Fin 600) (Fin 1000) = fl (6 / 10) \<and>
   fadd (fadd (Fin 1) (Fin 1)) (Fin 1) = Fin 3 \<and>
   fquot (Fin 1) (Fin 3) = fl (1 / 3) \<and>
   fadd (fadd (fl (1 / 10)) (fl (3 / 10))) (fl (6 / 10)) = Fin 1 \<and>
   fadd (fadd (fl (1 / 3)) (fl (1 / 3))) (fl (1 / 3)) = Fin 1"
  by (simp add: f_eval rd_eval)

section \<open>Properties of the checkpointing rule\<close>

lemma fgt_nonneg_trans: "fgt a b \<Longrightarrow> b = Fin 0 \<or> fgt b (Fin 0) \<Longrightarrow> fgt a (Fin 0)"
  by (cases a; cases b) (auto simp: fgt_def)

lemma fgt_irrefl: "\<not> fgt a a"
  by (cases a) (auto simp: fgt_def)

lemma fgt_asym: "fgt a b \<Longrightarrow> \<not> fgt b a"
  by (cases a; cases b) (auto simp: fgt_def)

lemma run_epochs_append:
  "run_epochs fp (xs @ ys) st = run_epochs fp ys (run_epochs fp xs st)"
  by (induction xs arbitrary: st) simp_all

lemma epoch_end_nonneg:
  assumes "best_avg_dev_acc st = Fin 0 \<or> fgt (best_avg_dev_acc st) (Fin 0)"
  shows "best_avg_dev_acc (epoch_end fp ep st) = Fin 0 \<or> fgt (best_avg_dev_acc (epoch_end fp ep st)) (Fin 0)"
proof (cases "fgt (avg_dev_acc (snd ep)) (best_avg_dev_acc st)")
  case True
  then have "fgt (avg_dev_acc (snd ep)) (Fin 0)" using assms by (rule fgt_nonneg_trans)
  with True show ?thesis by (simp add: epoch_end_def save_model_def)
next
  case False
  with assms show ?thesis by (simp add: epoch_end_def)
qed

lemma run_epochs_nonneg:
  "best_avg_dev_acc st = Fin 0 \<or> fgt (best_avg_dev_acc st) (Fin 0) \<Longrightarrow>
   best_avg_dev_acc (run_epochs fp eps st) = Fin 0 \<or> fgt (best_avg_dev_acc (run_epochs fp eps st)) (Fin 0)"
proof (induction eps arbitrary: st)
  case Nil
  then show ?case by simp
next
  case (Cons ep eps)
  show ?case using Cons.IH [OF epoch_end_nonneg [OF Cons.prems]] by simp
qed

lemma run_epochs_best:
  "best_avg_dev_acc (run_epochs fp eps st) =
     fold (\<lambda>ep b. if fgt (avg_dev_acc (snd ep)) b then avg_dev_acc (snd ep) else b) eps (best_avg_dev_acc st)"
  by (induction eps arbitrary: st) (auto simp: epoch_end_def save_model_def)

lemma run_epochs_no_improvement:
  "\<forall>ep \<in> set eps. \<not> fgt (avg_dev_acc (snd ep)) (best_avg_dev_acc st) \<Longrightarrow> run_epochs fp eps st = st"
  by (induction eps) (simp_all add: epoch_end_def)

lemma train_nonneg:
  "best_avg_dev_acc (train_multitask fp fs eps) = Fin 0 \<or>
   fgt (best_avg_dev_acc (train_multitask fp fs eps)) (Fin 0)"
  unfolding train_multitask_def by (rule run_epochs_nonneg) (simp add: init_state_def)

text \<open>
  The average is the float the code computes, not the exact one: for the metrics 0.1,
  0.7 and -0.7999999999999999 the sum of the first two rounds to 0.7999999999999999,
  the average is 0.0 and does not exceed the initial best, although the exact average
  of the three numbers is above 0.
\<close>

lemma avg_dev_acc_rounded:
  "avg_dev_acc (fl (1 / 10), fl (7 / 10), Fin (- (7205759403792793 / 9007199254740992))) = Fin 0 \<and>
   \<not> fgt (avg_dev_acc (fl (1 / 10), fl (7 / 10), Fin (- (7205759403792793 / 9007199254740992)))) (Fin 0)"
  by (simp add: avg_dev_acc_def fgt_def f_eval rd_eval)

text \<open>
  Claim C6, as stated, fails. In a run whose first epoch has the dev metrics 0.25,
  0.25 and -0.75 and whose second epoch has 0.25, 0.25 and -0.625, the average of the
  second epoch strictly exceeds that of the first, which is the best average seen so
  far in the run, and yet no checkpoint is written in either epoch: both averages are
  below 0, the value the comparison starts from.
\<close>

theorem checkpoint_best_seen_counterexample:
  "fgt (avg_dev_acc (Fin (1 / 4), Fin (1 / 4), Fin (- (5 / 8))))
       (avg_dev_acc (Fin (1 / 4), Fin (1 / 4), Fin (- (3 / 4)))) \<and>
   writes (train_multitask ''m.pt'' Map.empty
     [(1::nat, (Fin (1 / 4), Fin (1 / 4), Fin (- (3 / 4)))),
      (2, (Fin (1 / 4), Fin (1 / 4), Fin (- (5 / 8))))]) = []"
  by (simp add: train_multitask_def init_state_def epoch_end_def avg_dev_acc_def fgt_def f_eval rd_eval)

text \<open>
  Claim C6, amended. At the end of every epoch, whatever the state \<open>st\<close> the run has
  reached: \<^verbatim>\<open>torch.save\<close> is called if and only if the float
  \<open>(a + b + c) / 3\<close> of the three dev metrics \<open>a\<close>, \<open>b\<close> and \<open>c\<close> is strictly above
  the tracked value \<open>best_avg_dev_acc st\<close>. When it is called, exactly one write is
  logged, to \<open>filepath\<close>; the file at \<open>filepath\<close> is replaced by the new snapshot and
  every other path is as before; the tracked value becomes the new average. Otherwise
  the state is unchanged. The tracked value is 0 at the start of a run, afterwards
  the last average that exceeded it, and never below 0: it is the best average seen
  so far only once an average above 0 has been seen.
\<close>

theorem checkpoint_iff_above_tracked_best:
  "(fgt (fquot (fadd (fadd a b) c) (Fin 3)) (best_avg_dev_acc st) \<longleftrightarrow>
      writes (epoch_end filepath (snap, a, b, c) st) \<noteq> writes st) \<and>
   (if fgt (fquot (fadd (fadd a b) c) (Fin 3)) (best_avg_dev_acc st)
    then writes (epoch_end filepath (snap, a, b, c) st) = writes st @ [(filepath, snap)] \<and>
         files (epoch_end filepath (snap, a, b, c) st) = (files st)(filepath \<mapsto> snap) \<and>
         best_avg_dev_acc (epoch_end filepath (snap, a, b, c) st) = fquot (fadd (fadd a b) c) (Fin 3)
    else epoch_end filepath (snap, a, b, c) st = st) \<and>
   best_avg_dev_acc (init_state fs) = Fin 0 \<and>
   best_avg_dev_acc (run_epochs filepath eps (init_state fs)) =
     fold (\<lambda>ep b. if fgt (avg_dev_acc (snd ep)) b then avg_dev_acc (snd ep) else b) eps (Fin 0) \<and>
   \<not> fgt (Fin 0) (best_avg_dev_acc (run_epochs filepath eps (init_state fs)))"
proof -
  have step: "(fgt (fquot (fadd (fadd a b) c) (Fin 3)) (best_avg_dev_acc st) \<longleftrightarrow>
      writes (epoch_end filepath (snap, a, b, c) st) \<noteq> writes st) \<and>
   (if fgt (fquot (fadd (fadd a b) c) (Fin 3)) (best_avg_dev_acc st)
    then writes (epoch_end filepath (snap, a, b, c) st) = writes st @ [(filepath, snap)] \<and>
         files (epoch_end filepath (snap, a, b, c) st) = (files st)(filepath \<mapsto> snap) \<and>
         best_avg_dev_acc (epoch_end filepath (snap, a, b, c) st) = fquot (fadd (fadd a b) c) (Fin 3)
    else epoch_end filepath (snap, a, b, c) st = st)"
    by (simp add: epoch_end_def save_model_def avg_dev_acc_def)
  have i: "best_avg_dev_acc (init_state fs) = Fin 0" by (simp add: init_state_def)
  have f: "best_avg_dev_acc (run_epochs filepath eps (init_state fs)) =
     fold (\<lambda>ep b. if fgt (avg_dev_acc (snd ep)) b then avg_dev_acc (snd ep) else b) eps (Fin 0)"
    by (simp add: run_epochs_best i)
  have "best_avg_dev_acc (run_epochs filepath eps (init_state fs)) = Fin 0 \<or>
      fgt (best_avg_dev_acc (run_epochs filepath eps (init_state fs))) (Fin 0)"
    by (rule run_epochs_nonneg) (simp add: i)
  then have n: "\<not> fgt (Fin 0) (best_avg_dev_acc (run_epochs filepath eps (init_state fs)))"
    using fgt_irrefl [of "Fin 0"] fgt_asym by auto
  show ?thesis using step i f n by blast
qed

text \<open>
  Claim C10. The tracked best starts at 0. An epoch of a run writes a checkpoint only
  if its dev average is strictly above 0 (so this holds for the first checkpoint of
  the run), and a run in which no dev average is strictly above 0 (zero, negative or
  NaN averages) writes nothing: the log of writes is empty and the file system is the
  one the run started with.
\<close>

theorem no_checkpoint_unless_positive:
  "best_avg_dev_acc (init_state fs) = Fin 0 \<and>
   (writes (train_multitask filepath fs (pre @ [ep])) \<noteq> writes (train_multitask filepath fs pre)
      \<longrightarrow> fgt (avg_dev_acc (snd ep)) (Fin 0)) \<and>
   ((\<forall>ep \<in> set eps. \<not> fgt (avg_dev_acc (snd ep)) (Fin 0))
      \<longrightarrow> writes (train_multitask filepath fs eps) = [] \<and> files (train_multitask filepath fs eps) = fs)"
proof (intro conjI impI)
  show "best_avg_dev_acc (init_state fs) = Fin 0" by (simp add: init_state_def)
next
  assume w: "writes (train_multitask filepath fs (pre @ [ep])) \<noteq> writes (train_multitask filepath fs pre)"
  let ?st = "run_epochs filepath pre (init_state fs)"
  have "best_avg_dev_acc ?st = Fin 0 \<or> fgt (best_avg_dev_acc ?st) (Fin 0)"
    using train_nonneg [of filepath fs pre] by (simp add: train_multitask_def)
  moreover have "fgt (avg_dev_acc (snd ep)) (best_avg_dev_acc ?st)"
    using w by (simp add: train_multitask_def run_epochs_append epoch_end_def split: if_splits)
  ultimately show "fgt (avg_dev_acc (snd ep)) (Fin 0)" using fgt_nonneg_trans by blast
next
  assume a: "\<forall>ep \<in> set eps. \<not> fgt (avg_dev_acc (snd ep)) (Fin 0)"
  then have "run_epochs filepath eps (init_state fs) = init_state fs"
    by (intro run_epochs_no_improvement) (simp add: init_state_def)
  then show "writes (train_multitask filepath fs eps) = []"
    and "files (train_multitask filepath fs eps) = fs"
    by (simp_all add: train_multitask_def init_state_def)
qed

theorem no_checkpoint_unless_positive_witness:
  "writes (train_multitask ''m.pt'' Map.empty ([] @ [(1::nat, (Fin (1 / 2), Fin (1 / 2), Fin (1 / 2)))]))
     \<noteq> writes (train_multitask ''m.pt'' Map.empty [])
   \<and> fgt (avg_dev_acc (snd (1::nat, (Fin (1 / 2), Fin (1 / 2), Fin (1 / 2))))) (Fin 0)
   \<and> \<not> fgt (avg_dev_acc (Fin 0, Fin 0, Fin (- (1 / 2)))) (Fin 0)
   \<and> \<not> fgt (avg_dev_acc (Fin (1 / 4), Fin 0, Fin (- (1 / 4)))) (Fin 0)
   \<and> \<not> fgt (avg_dev_acc (Fin (1 / 2), Fin (1 / 2), NaN)) (Fin 0)
   \<and> writes (train_multitask ''m.pt'' Map.empty
        [(1::nat, (Fin 0, Fin 0, Fin (- (1 / 2)))), (2, (Fin (1 / 4), Fin 0, Fin (- (1 / 4)))),
         (3, (Fin (1 / 2), Fin (1 / 2), NaN))]) = []
   \<and> files (train_multitask ''m.pt'' Map.empty
        [(1::nat, (Fin 0, Fin 0, Fin (- (1 / 2)))), (2, (Fin (1 / 4), Fin 0, Fin (- (1 / 4)))),
         (3, (Fin (1 / 2), Fin (1 / 2), NaN))]) = Map.empty"
proof -
  have a: "avg_dev_acc (Fin (1 / 2), Fin (1 / 2), Fin (1 / 2)) = Fin (1 / 2)"
    by (simp add: avg_dev_acc_def f_eval rd_eval)
  have b: "\<not> fgt (avg_dev_acc (Fin 0, Fin 0, Fin (- (1 / 2)))) (Fin 0)"
    "\<not> fgt (avg_dev_acc (Fin (1 / 4), Fin 0, Fin (- (1 / 4)))) (Fin 0)"
    "\<not> fgt (avg_dev_acc (Fin (1 / 2), Fin (1 / 2), NaN)) (Fin 0)"
    by (simp_all add: avg_dev_acc_def fgt_def f_eval rd_eval)
  have w: "writes (train_multitask ''m.pt'' Map.empty ([] @ [(1::nat, (Fin (1 / 2), Fin (1 / 2), Fin (1 / 2)))]))
     \<noteq> writes (train_multitask ''m.pt'' Map.empty [])"
    by (simp add: train_multitask_def init_state_def epoch_end_def save_model_def a fgt_def)
  show ?thesis
    using no_checkpoint_unless_positive [of "Map.empty :: string \<rightharpoonup> nat" "''m.pt''" "[]"
        "(1::nat, (Fin (1 / 2), Fin (1 / 2), Fin (1 / 2)))"
        "[(1::nat, (Fin 0, Fin 0, Fin (- (1 / 2)))), (2, (Fin (1 / 4), Fin 0, Fin (- (1 / 4)))),
         (3, (Fin (1 / 2), Fin (1 / 2), NaN))]"] w b
    by simp
qed

end
